theory Spec2Isabelle
  imports Complex_Main
begin

section \<open>Mars Shot: physics and game-state engine\<close>

text \<open>
  The repository holds two drafts of the same game: \<^verbatim>\<open>src/game.js\<close> (the later one) and
  a second, unnamed file (\<^verbatim>\<open>part_000\<close>).  They share the vector class, \<^verbatim>\<open>Body.update\<close>,
  \<^verbatim>\<open>endGame\<close>, \<^verbatim>\<open>getLaunchVector\<close>, \<^verbatim>\<open>UpgradeSystem\<close> and the frame loop; they differ in
  three constants, in the collision branch of \<^verbatim>\<open>calculateGravity\<close> and in one guard of
  \<^verbatim>\<open>launch\<close>.  The draft is a parameter of the functions that differ.

  JavaScript numbers are modelled as real numbers (rounding is outside the model); the
  one place where the non-finite values of JavaScript matter, \<^verbatim>\<open>Vector.normalize\<close>, is
  modelled a second time over numbers extended with NaN and the infinities.
\<close>

datatype draft = GameJs | Part000

subsection \<open>GameConfig\<close>

fun G_BASE :: "draft \<Rightarrow> real" where
  "G_BASE GameJs = 28 / 100"
| "G_BASE Part000 = 35 / 100"

fun COLLISION_PADDING :: "draft \<Rightarrow> real" where
  "COLLISION_PADDING GameJs = 15"
| "COLLISION_PADDING Part000 = 4"

text \<open>The factor on the sun's pull: \<^verbatim>\<open>strength *= 1.0\<close> in game.js, \<^verbatim>\<open>strength * 1.5\<close> in
  the other draft.\<close>

fun SUN_BOOST :: "draft \<Rightarrow> real" where
  "SUN_BOOST GameJs = 1"
| "SUN_BOOST Part000 = 15 / 10"

definition COLLISION_MIN_DIST :: real where "COLLISION_MIN_DIST = 10"
definition MAX_INPUT_DIST :: real where "MAX_INPUT_DIST = 300"
definition ROCKET_TRAIL_LIMIT :: nat where "ROCKET_TRAIL_LIMIT = 600"
definition BODY_TRAIL_LIMIT :: nat where "BODY_TRAIL_LIMIT = 60"
definition LANDING_REWARD :: int where "LANDING_REWARD = 100"
definition MAX_DISTANCE_SCORE :: int where "MAX_DISTANCE_SCORE = 50"

subsection \<open>class Vector\<close>

text \<open>The fields \<^verbatim>\<open>x\<close> and \<^verbatim>\<open>y\<close> are the selectors \<open>vx\<close> and \<open>vy\<close>.  The methods
  \<^verbatim>\<open>add\<close>, \<^verbatim>\<open>mult\<close> and \<^verbatim>\<open>normalize\<close> mutate their receiver; here they return its new
  value.  \<^verbatim>\<open>copy\<close> is the identity on values.\<close>

datatype Vector = Vector (vx: real) (vy: real)

definition add :: "Vector \<Rightarrow> Vector \<Rightarrow> Vector" where
  "add this v = Vector (vx this + vx v) (vy this + vy v)"

definition sub :: "Vector \<Rightarrow> Vector \<Rightarrow> Vector" where
  "sub this v = Vector (vx this - vx v) (vy this - vy v)"

definition mult :: "Vector \<Rightarrow> real \<Rightarrow> Vector" where
  "mult this n = Vector (vx this * n) (vy this * n)"

definition mag :: "Vector \<Rightarrow> real" where
  "mag this = sqrt (vx this * vx this + vy this * vy this)"

text \<open>\<^verbatim>\<open>Number.isFinite\<close>: every real number is finite.\<close>

definition isFinite :: "real \<Rightarrow> bool" where
  "isFinite m = True"

definition normalize_v :: "Vector \<Rightarrow> Vector" where
  "normalize_v this =
     (let m = mag this in
      if m \<noteq> 0 \<and> isFinite m then Vector (vx this / m) (vy this / m) else this)"

text \<open>\<^verbatim>\<open>Math.atan2(y, x)\<close>, with \<^verbatim>\<open>atan2(0, 0) = 0\<close>.\<close>

definition atan2 :: "real \<Rightarrow> real \<Rightarrow> real" where
  "atan2 b a =
     (if a > 0 then arctan (b / a)
      else if a < 0 \<and> b \<ge> 0 then arctan (b / a) + pi
      else if a < 0 then arctan (b / a) - pi
      else if b > 0 then pi / 2
      else if b < 0 then - pi / 2
      else 0)"

definition heading :: "Vector \<Rightarrow> real" where
  "heading this = atan2 (vy this) (vx this)"

subsection \<open>class Body\<close>

datatype body_type =
  Sun | TargetStart | TargetEnd | Moon | Saturn | Obstacle | Rocket | Planet

text \<open>
  \<^verbatim>\<open>parentBody\<close> is a reference to another element of \<^verbatim>\<open>physics.bodies\<close>; it is modelled
  as that element's index, read from the list at the moment of use, so that a child sees
  the parent as the loop over the bodies has left it.  \<^verbatim>\<open>shapeVertices\<close> (the random
  outline drawn for an asteroid) is not modelled.
\<close>

record Body =
  pos :: Vector
  vel :: Vector
  acc :: Vector
  mass :: real
  radius :: real
  color :: string
  isStatic :: bool
  type :: body_type
  trail :: "Vector list"
  orbitCenter :: "Vector option"
  parentBody :: "nat option"
  orbitRadius :: real
  orbitAngle :: real
  orbitSpeed :: real
  startPos :: Vector
  oscillate :: bool
  oscillateSpeed :: real
  oscillateDist :: real
  timeOffset :: real
  fuel :: real
  angle :: real
  age :: nat

text \<open>The constructor.  It reads \<^verbatim>\<open>gameData.scaleFactor\<close> (the argument \<open>sf\<close>) and draws a
  random \<^verbatim>\<open>orbitAngle\<close> (the argument \<open>a\<close>).\<close>

definition newBody ::
  "real \<Rightarrow> real \<Rightarrow> real \<Rightarrow> real \<Rightarrow> real \<Rightarrow> string \<Rightarrow> bool \<Rightarrow> body_type \<Rightarrow> real \<Rightarrow> Body" where
  "newBody sf px py m rad col st ty a =
     \<lparr>pos = Vector px py, vel = Vector 0 0, acc = Vector 0 0, mass = m,
      radius = rad * sf, color = col, isStatic = st, type = ty,
      trail = [], orbitCenter = None, parentBody = None, orbitRadius = 0, orbitAngle = a,
      orbitSpeed = 0, startPos = Vector px py, oscillate = False, oscillateSpeed = 0,
      oscillateDist = 0, timeOffset = 0, fuel = 0, angle = 0, age = 0\<rparr>"

definition applyForce :: "Vector \<Rightarrow> Body \<Rightarrow> Body" where
  "applyForce f this = this\<lparr>acc := add (acc this) (mult f (1 / mass this))\<rparr>"

subsection \<open>Global state\<close>

datatype mode = IDLE | FLYING | ENDED

text \<open>\<^verbatim>\<open>gameState.closestDist\<close> starts at \<^verbatim>\<open>Infinity\<close>.\<close>

datatype dist = Infinity | Finite real

datatype track = FuelTrack | ThrustTrack | LaunchTrack

record upgrade =
  level :: int
  cost :: int
  name :: string
  maxLevel :: int
  costMultiplier :: real

text \<open>A particle is recorded where it is spawned, with its colour; its random velocity
  and size, its fading and the particle pool belong to the drawing code.\<close>

record Particle =
  p_pos :: Vector
  p_color :: string

text \<open>
  The globals \<^verbatim>\<open>gameData\<close>, \<^verbatim>\<open>gameState\<close>, \<^verbatim>\<open>physics\<close>, \<^verbatim>\<open>InputManager.mouse\<close> and
  \<^verbatim>\<open>UpgradeSystem.upgrades\<close> are the fields of one state record, under their own names.
  Of the page, only the title of the end-of-run message is kept (\<open>msgTitle\<close>).
  \<^verbatim>\<open>upgrades\<close> has exactly the keys \<^verbatim>\<open>fuel\<close>, \<^verbatim>\<open>thrust\<close> and \<^verbatim>\<open>launch\<close>.
\<close>

record world =
  width :: real
  height :: real
  cx :: real
  cy :: real
  scaleFactor :: real
  frameCount :: nat
  lastTimestamp :: real
  accumulator :: real
  mode :: mode
  coins :: int
  closestDist :: dist
  isThrusting :: bool
  shakeStrength :: real
  isPaused :: bool
  bodies :: "Body list"
  rocket :: "Body option"
  ghostTrail :: "Vector list"
  particles :: "Particle list"
  mouse :: Vector
  upgrades :: "track \<Rightarrow> upgrade"
  msgTitle :: string

subsection \<open>endGame, spawnExplosion\<close>

text \<open>\<^verbatim>\<open>Math.max(0, MAX_DISTANCE_SCORE - Math.floor(closestDist / 2))\<close>; at
  \<^verbatim>\<open>closestDist = Infinity\<close> JavaScript computes \<^verbatim>\<open>Math.max(0, -Infinity) = 0\<close>.\<close>

fun distScore :: "dist \<Rightarrow> int" where
  "distScore Infinity = 0"
| "distScore (Finite c) = max 0 (MAX_DISTANCE_SCORE - \<lfloor>c / 2\<rfloor>)"

definition saveGhostTrail :: "world \<Rightarrow> world" where
  "saveGhostTrail w =
     (case rocket w of
        None \<Rightarrow> w
      | Some r \<Rightarrow> if length (trail r) > 0 then w\<lparr>ghostTrail := trail r\<rparr> else w)"

definition endGame :: "bool \<Rightarrow> string \<Rightarrow> world \<Rightarrow> world" where
  "endGame success reason w =
     (let w1 = w\<lparr>mode := ENDED, isThrusting := False, isPaused := False\<rparr>;
          w2 = saveGhostTrail w1;
          w3 = w2\<lparr>rocket := None\<rparr>
      in if success then
           (let earned = LANDING_REWARD
            in w3\<lparr>coins := coins w3 + earned, msgTitle := ''MARS LANDING!''\<rparr>)
         else
           (let score = distScore (closestDist w3);
                score = (if reason = ''crashed'' then 0 else score)
            in w3\<lparr>coins := coins w3 + score,
                  msgTitle := (if reason = ''lost_space'' then ''LOST IN SPACE'' else ''CRASHED'')\<rparr>))"

definition spawnExplosion :: "real \<Rightarrow> real \<Rightarrow> string \<Rightarrow> world \<Rightarrow> world" where
  "spawnExplosion a b c w =
     w\<lparr>shakeStrength := 10,
       particles := particles w @ replicate 30 \<lparr>p_pos = Vector a b, p_color = c\<rparr>\<rparr>"

subsection \<open>UpgradeSystem\<close>

record stats =
  maxFuel :: real
  thrustPower :: real
  launchForceMin :: real
  launchForceMax :: real

definition getStats :: "world \<Rightarrow> stats" where
  "getStats w =
     \<lparr>maxFuel = 100 + (real_of_int (level (upgrades w FuelTrack)) - 1) * 30,
      thrustPower = (1 / 10 + (real_of_int (level (upgrades w ThrustTrack)) - 1) * (25 / 1000))
                      * scaleFactor w,
      launchForceMin = (15 / 10) * scaleFactor w,
      launchForceMax = (5 + (real_of_int (level (upgrades w LaunchTrack)) - 1)) * scaleFactor w\<rparr>"

definition buy :: "track \<Rightarrow> world \<Rightarrow> world" where
  "buy t w =
     (let u = upgrades w t in
      if level u < maxLevel u \<and> coins w \<ge> cost u then
        w\<lparr>coins := coins w - cost u,
          upgrades := (upgrades w)
            (t := u\<lparr>level := level u + 1,
                    cost := \<lfloor>real_of_int (cost u) * costMultiplier u\<rfloor>\<rparr>)\<rparr>
      else w)"

subsection \<open>Body.update\<close>

definition parentOf :: "world \<Rightarrow> Body \<Rightarrow> Body option" where
  "parentOf w this =
     (case parentBody this of
        None \<Rightarrow> None
      | Some i \<Rightarrow> if i < length (bodies w) then Some (bodies w ! i) else None)"

text \<open>The first block of \<^verbatim>\<open>update\<close>: the motion, by the first mode that applies.\<close>

definition update_motion :: "world \<Rightarrow> Body \<Rightarrow> Body" where
  "update_motion w this =
     (case orbitCenter this of
        Some c \<Rightarrow>
          (let a = orbitAngle this + orbitSpeed this in
           this\<lparr>orbitAngle := a,
                pos := Vector (vx c + cos a * orbitRadius this) (vy c + sin a * orbitRadius this),
                vel := Vector (- sin a * orbitRadius this * orbitSpeed this)
                              (cos a * orbitRadius this * orbitSpeed this)\<rparr>)
      | None \<Rightarrow>
          (case parentOf w this of
             Some p \<Rightarrow>
               (let a = orbitAngle this + orbitSpeed this in
                this\<lparr>orbitAngle := a,
                     pos := Vector (vx (pos p) + cos a * orbitRadius this)
                                   (vy (pos p) + sin a * orbitRadius this),
                     vel := Vector (vx (vel p) - sin a * orbitRadius this * orbitSpeed this)
                                   (vy (vel p) + cos a * orbitRadius this * orbitSpeed this)\<rparr>)
           | None \<Rightarrow>
               if oscillate this then
                 this\<lparr>pos := Vector (vx (pos this))
                   (vy (startPos this)
                      + sin (real (frameCount w) * oscillateSpeed this + timeOffset this)
                          * oscillateDist this)\<rparr>
               else if \<not> isStatic this then
                 (let v = add (vel this) (acc this) in this\<lparr>vel := v, pos := add (pos this) v\<rparr>)
               else this))"

text \<open>The second block: the age and the drawing angle of the rocket.\<close>

definition update_rocket :: "world \<Rightarrow> Body \<Rightarrow> Body" where
  "update_rocket w this =
     (if type this = Rocket then
        (let b = this\<lparr>age := age this + 1\<rparr> in
         if isThrusting w then b\<lparr>angle := heading (sub (mouse w) (pos b))\<rparr>
         else if mag (vel b) > 1 / 10 then b\<lparr>angle := heading (vel b)\<rparr>
         else b)
      else this)"

text \<open>The third block: the trail, sampled every fifth frame and bounded.\<close>

definition update_trail :: "world \<Rightarrow> Body \<Rightarrow> Body" where
  "update_trail w this =
     (if (type this = Planet \<or> type this = Rocket) \<and> frameCount w mod 5 = 0 then
        (let t = trail this @ [pos this];
             limit = (if type this = Rocket then ROCKET_TRAIL_LIMIT else BODY_TRAIL_LIMIT)
         in this\<lparr>trail := (if length t > limit then tl t else t)\<rparr>)
      else this)"

definition update :: "world \<Rightarrow> Body \<Rightarrow> Body" where
  "update w this =
     (let b1 = update_motion w this;
          b2 = b1\<lparr>acc := mult (acc b1) 0\<rparr>;
          b3 = update_rocket w b2
      in update_trail w b3)"

text \<open>\<^verbatim>\<open>physics.bodies.forEach(b => b.update())\<close>: the bodies are updated in place, in
  order, so that the body at index \<open>i\<close> is updated in a list whose earlier elements
  already are.\<close>

definition updateAt :: "nat \<Rightarrow> world \<Rightarrow> world" where
  "updateAt i w = w\<lparr>bodies := (bodies w)[i := update w (bodies w ! i)]\<rparr>"

definition updateBodies :: "world \<Rightarrow> world" where
  "updateBodies w = fold updateAt [0..<length (bodies w)] w"

subsection \<open>calculateGravity\<close>

text \<open>The thrust block.\<close>

definition thrust :: "world \<Rightarrow> world" where
  "thrust w =
     (case rocket w of
        None \<Rightarrow> w
      | Some r \<Rightarrow>
          if isThrusting w \<and> fuel r > 0 then
            (let force = sub (mouse w) (pos r);
                 force = normalize_v force;
                 force = mult force (thrustPower (getStats w));
                 r1 = applyForce force r;
                 r2 = r1\<lparr>fuel := fuel r1 - 1 / 2\<rparr>;
                 r3 = (if fuel r2 < 0 then r2\<lparr>fuel := 0\<rparr> else r2);
                 w1 = w\<lparr>rocket := Some r3\<rparr>
             in if frameCount w mod 3 = 0 then
                  w1\<lparr>particles := particles w1 @ [\<lparr>p_pos = pos r3, p_color = ''#ffaa00''\<rparr>]\<rparr>
                else w1)
          else w)"

text \<open>The pull of one body on the rocket \<open>r\<close>.\<close>

definition attract :: "draft \<Rightarrow> world \<Rightarrow> Body \<Rightarrow> Body \<Rightarrow> Body" where
  "attract d w body r =
     (let force = sub (pos body) (pos r);
          dist = mag force;
          force = normalize_v force;
          distClamped = max dist (COLLISION_MIN_DIST * scaleFactor w);
          strength = (G_BASE d * scaleFactor w * mass body) / (distClamped * distClamped);
          strength = (if type body = Sun then strength * SUN_BOOST d else strength)
      in applyForce (mult force strength) r)"

text \<open>The rocket after the pull of each of the bodies \<open>bs\<close> in turn (a body of type
  \<^verbatim>\<open>rocket\<close> is skipped): what the loop below has done to the rocket when it has passed
  \<open>bs\<close> without a collision.\<close>

definition pullAll :: "draft \<Rightarrow> world \<Rightarrow> Body list \<Rightarrow> Body \<Rightarrow> Body" where
  "pullAll d w bs r = fold (\<lambda>body r. if type body = Rocket then r else attract d w body r) bs r"

text \<open>The collision test: \<^verbatim>\<open>dist < collisionDist\<close>.\<close>

definition collisionDist :: "draft \<Rightarrow> world \<Rightarrow> Body \<Rightarrow> real" where
  "collisionDist d w body = radius body + COLLISION_PADDING d * scaleFactor w"

definition collides :: "draft \<Rightarrow> world \<Rightarrow> Body \<Rightarrow> Body \<Rightarrow> bool" where
  "collides d w body r \<longleftrightarrow> mag (sub (pos body) (pos r)) < collisionDist d w body"

text \<open>
  The body of \<^verbatim>\<open>if (dist < collisionDist)\<close>, which always ends with \<^verbatim>\<open>return\<close>.
  In game.js the position of the rocket is read before \<^verbatim>\<open>endGame\<close> and the explosion is
  spawned there.  In the other draft the explosion is spawned after \<^verbatim>\<open>endGame\<close>, under
  the test \<^verbatim>\<open>physics.rocket && physics.rocket.pos\<close>, and then the rocket is set to null.
\<close>

fun collide :: "draft \<Rightarrow> Body \<Rightarrow> Body \<Rightarrow> world \<Rightarrow> world" where
  "collide GameJs body r w =
     (let rx = vx (pos r); ry = vy (pos r) in
      if type body = TargetEnd then endGame True ''landed'' w
      else if type body = TargetStart then
        (if age r > 100 then spawnExplosion rx ry (color body) (endGame False ''crashed'' w)
         else w)
      else spawnExplosion rx ry (color body) (endGame False ''crashed'' w))"
| "collide Part000 body r w =
     (let after = (\<lambda>w1.
            (case rocket w1 of
               Some r1 \<Rightarrow> spawnExplosion (vx (pos r1)) (vy (pos r1)) (color body) w1
             | None \<Rightarrow> w1)\<lparr>rocket := None\<rparr>)
      in if type body = TargetEnd then after (endGame True ''landed'' w)
         else if type body = TargetStart \<and> age r \<le> 100 then w
         else after (endGame False ''crashed'' w))"

text \<open>
  \<^verbatim>\<open>for (const body of physics.bodies)\<close>.  The result is the state and whether the loop
  ran to its end (\<open>True\<close>) or the function returned from inside it (\<open>False\<close>).
  With no rocket, game.js fails on \<^verbatim>\<open>physics.rocket.pos\<close> and the enclosing
  \<^verbatim>\<open>try\<close> ends the function; the other draft skips the body.
\<close>

fun gravityLoop :: "draft \<Rightarrow> Body list \<Rightarrow> world \<Rightarrow> world \<times> bool" where
  "gravityLoop d [] w = (w, True)"
| "gravityLoop d (body # rest) w =
     (if type body = Rocket then gravityLoop d rest w
      else
        (case rocket w of
           None \<Rightarrow> (case d of GameJs \<Rightarrow> (w, False) | Part000 \<Rightarrow> gravityLoop d rest w)
         | Some r \<Rightarrow>
             (let w1 = w\<lparr>rocket := Some (attract d w body r)\<rparr> in
              if collides d w body r then (collide d body (attract d w body r) w1, False)
              else gravityLoop d rest w1)))"

text \<open>The closest approach to the destination, after the loop.\<close>

definition trackClosest :: "world \<Rightarrow> world" where
  "trackClosest w =
     (case find (\<lambda>b. type b = TargetEnd) (bodies w) of
        None \<Rightarrow> w
      | Some mars \<Rightarrow>
          (case rocket w of
             None \<Rightarrow> w
           | Some r \<Rightarrow>
               (let dd = mag (sub (pos r) (pos mars)) in
                case closestDist w of
                  Infinity \<Rightarrow> w\<lparr>closestDist := Finite dd\<rparr>
                | Finite c \<Rightarrow> if dd < c then w\<lparr>closestDist := Finite dd\<rparr> else w)))"

definition calculateGravity :: "draft \<Rightarrow> world \<Rightarrow> world" where
  "calculateGravity d w =
     (case rocket w of
        None \<Rightarrow> w
      | Some r \<Rightarrow>
          if bodies w = [] then w
          else
            (let w1 = thrust w;
                 res = gravityLoop d (bodies w1) w1
             in if snd res then trackClosest (fst res) else fst res))"

subsection \<open>getLaunchVector, launch\<close>

definition getLaunchVector :: "world \<Rightarrow> Vector \<times> real" where
  "getLaunchVector w =
     (case find (\<lambda>b. type b = TargetStart) (bodies w) of
        None \<Rightarrow> (Vector 0 0, 0)
      | Some earth \<Rightarrow>
          (let st = getStats w;
               target = mouse w;
               dir = sub target (pos earth);
               dist = mag dir;
               dir = normalize_v dir;
               ratio = min dist (MAX_INPUT_DIST * scaleFactor w) / (MAX_INPUT_DIST * scaleFactor w);
               force = launchForceMin st + (launchForceMax st - launchForceMin st) * ratio;
               launchVel = mult dir force;
               launchVel = add launchVel (vel earth)
           in (launchVel, ratio)))"

text \<open>\<^verbatim>\<open>InputManager._updateMouse(e)\<close>, for an event \<open>e\<close> that carries a pointer position.\<close>

definition updateMouse :: "Vector \<Rightarrow> world \<Rightarrow> world" where
  "updateMouse e w = w\<lparr>mouse := e\<rparr>"

datatype error = TypeError

text \<open>game.js returns at once when there is no launch body; the other draft has no such
  guard and fails on \<^verbatim>\<open>earth.pos\<close>.\<close>

definition launch :: "draft \<Rightarrow> real \<Rightarrow> Vector \<Rightarrow> world \<Rightarrow> error + world" where
  "launch d a e w =
     (case find (\<lambda>b. type b = TargetStart) (bodies w) of
        None \<Rightarrow> (case d of GameJs \<Rightarrow> Inr w | Part000 \<Rightarrow> Inl TypeError)
      | Some earth \<Rightarrow>
          (let st = getStats w;
               w1 = updateMouse e w;
               vec = fst (getLaunchVector w1);
               r = newBody (scaleFactor w1) (vx (pos earth)) (vy (pos earth)) 1 4 ''#fff'' False
                     Rocket a;
               r = r\<lparr>vel := vec\<rparr>;
               r = r\<lparr>fuel := maxFuel st\<rparr>;
               dir = normalize_v vec;
               off = mult dir (radius earth + 25 * scaleFactor w1);
               r = r\<lparr>pos := add (pos r) off\<rparr>
           in Inr (w1\<lparr>rocket := Some r, mode := FLYING\<rparr>)))"

subsection \<open>The physics step and the frame loop\<close>

text \<open>One pass of the \<^verbatim>\<open>while\<close> loop of \<^verbatim>\<open>loop\<close> without the accumulator, which the
  second draft names \<^verbatim>\<open>physicsStep\<close>.\<close>

definition updateRocket :: "world \<Rightarrow> world" where
  "updateRocket w =
     (case rocket w of
        None \<Rightarrow> w
      | Some r \<Rightarrow>
          (let r1 = update w r;
               w1 = w\<lparr>rocket := Some r1\<rparr>;
               dd = mag (Vector (vx (pos r1) - cx w1) (vy (pos r1) - cy w1))
           in if dd > max (width w1) (height w1) * 2 then endGame False ''lost_space'' w1
              else w1))"

definition physicsStep :: "draft \<Rightarrow> world \<Rightarrow> world" where
  "physicsStep d w = updateRocket (updateBodies (calculateGravity d w))"

definition FIXED_STEP :: real where "FIXED_STEP = 1 / 60"
definition maxSteps :: nat where "maxSteps = 5"

text \<open>The body of the \<^verbatim>\<open>while\<close> loop.\<close>

definition pass :: "draft \<Rightarrow> world \<Rightarrow> world" where
  "pass d w = (let w1 = physicsStep d w in w1\<lparr>accumulator := accumulator w1 - FIXED_STEP\<rparr>)"

function stepLoop :: "draft \<Rightarrow> nat \<Rightarrow> world \<Rightarrow> world" where
  "stepLoop d steps w =
     (if accumulator w \<ge> FIXED_STEP \<and> steps < maxSteps then stepLoop d (Suc steps) (pass d w)
      else w)"
  by pat_completeness auto
termination
  by (relation "measure (\<lambda>(d, steps, w). maxSteps - steps)") auto

declare stepLoop.simps [simp del]

definition shake :: "world \<Rightarrow> world" where
  "shake w =
     (if shakeStrength w > 0 then
        (let w1 = w\<lparr>shakeStrength := shakeStrength w * (9 / 10)\<rparr>
         in if shakeStrength w1 < 1 / 2 then w1\<lparr>shakeStrength := 0\<rparr> else w1)
      else w)"

text \<open>\<^verbatim>\<open>loop\<close>, one animation frame; \<open>now\<close> is \<^verbatim>\<open>performance.now() / 1000\<close>.  Drawing is
  left out.\<close>

definition loop :: "draft \<Rightarrow> real \<Rightarrow> world \<Rightarrow> world" where
  "loop d now w =
     (let w1 = (if lastTimestamp w = 0 then w\<lparr>lastTimestamp := now\<rparr> else w);
          delta = now - lastTimestamp w1;
          delta = (if delta > 1 / 4 then 1 / 4 else delta);
          w2 = w1\<lparr>lastTimestamp := now, accumulator := accumulator w1 + delta\<rparr>
      in if isPaused w2 then w2
         else
           (let w3 = shake w2;
                w4 = stepLoop d 0 w3
            in w4\<lparr>frameCount := frameCount w4 + 1\<rparr>))"

definition togglePause :: "world \<Rightarrow> world" where
  "togglePause w = (if mode w = FLYING then w\<lparr>isPaused := \<not> isPaused w\<rparr> else w)"

subsection \<open>Input between ticks\<close>

definition inputStart :: "Vector \<Rightarrow> world \<Rightarrow> world" where
  "inputStart e w = (if mode w = FLYING then updateMouse e (w\<lparr>isThrusting := True\<rparr>) else w)"

text \<open>When \<^verbatim>\<open>launch\<close> fails, the handler ends with the pointer position already stored.\<close>

definition inputEnd :: "draft \<Rightarrow> real \<Rightarrow> Vector \<Rightarrow> world \<Rightarrow> world" where
  "inputEnd d a e w =
     (if mode w = FLYING then w\<lparr>isThrusting := False\<rparr>
      else if mode w = IDLE then
        (case launch d a e w of Inl err \<Rightarrow> updateMouse e w | Inr w1 \<Rightarrow> w1)
      else w)"

text \<open>What can happen during a flight: a physics tick, or one of the pointer events
  handled by \<^verbatim>\<open>InputManager\<close>.\<close>

datatype event = Tick | InputStart Vector | InputEnd real Vector | MouseMove Vector

fun step :: "draft \<Rightarrow> event \<Rightarrow> world \<Rightarrow> world" where
  "step d Tick w = physicsStep d w"
| "step d (InputStart e) w = inputStart e w"
| "step d (InputEnd a e) w = inputEnd d a e w"
| "step d (MouseMove e) w = updateMouse e w"

definition run :: "draft \<Rightarrow> event list \<Rightarrow> world \<Rightarrow> world" where
  "run d evs w = fold (step d) evs w"

subsection \<open>Vector.normalize and getLaunchVector over JavaScript's numbers\<close>

text \<open>
  A JavaScript number is a real number, NaN or an infinity (rounding, overflow and the
  sign of zero are not modelled; a division of a non-zero number by zero gives the
  infinity of the dividend's sign).  The operations are those that \<^verbatim>\<open>normalize\<close> and
  \<^verbatim>\<open>getLaunchVector\<close> use.
\<close>

datatype jsnum = Num real | NaN | PosInf | NegInf

fun jneg :: "jsnum \<Rightarrow> jsnum" where
  "jneg (Num a) = Num (- a)"
| "jneg NaN = NaN"
| "jneg PosInf = NegInf"
| "jneg NegInf = PosInf"

fun jadd :: "jsnum \<Rightarrow> jsnum \<Rightarrow> jsnum" where
  "jadd (Num a) (Num b) = Num (a + b)"
| "jadd NaN b = NaN"
| "jadd a NaN = NaN"
| "jadd PosInf NegInf = NaN"
| "jadd NegInf PosInf = NaN"
| "jadd PosInf b = PosInf"
| "jadd NegInf b = NegInf"
| "jadd a PosInf = PosInf"
| "jadd a NegInf = NegInf"

definition jsub :: "jsnum \<Rightarrow> jsnum \<Rightarrow> jsnum" where
  "jsub a b = jadd a (jneg b)"

text \<open>The sign of a number that is not NaN: \<open>-1\<close>, \<open>0\<close> or \<open>1\<close>.\<close>

fun jsign :: "jsnum \<Rightarrow> int" where
  "jsign (Num a) = (if a > 0 then 1 else if a < 0 then - 1 else 0)"
| "jsign PosInf = 1"
| "jsign NegInf = - 1"
| "jsign NaN = 0"

definition signedInf :: "int \<Rightarrow> jsnum" where
  "signedInf s = (if s = 0 then NaN else if s > 0 then PosInf else NegInf)"

fun jmul :: "jsnum \<Rightarrow> jsnum \<Rightarrow> jsnum" where
  "jmul (Num a) (Num b) = Num (a * b)"
| "jmul NaN b = NaN"
| "jmul a NaN = NaN"
| "jmul a b = signedInf (jsign a * jsign b)"

fun jdiv :: "jsnum \<Rightarrow> jsnum \<Rightarrow> jsnum" where
  "jdiv (Num a) (Num b) = (if b \<noteq> 0 then Num (a / b) else signedInf (jsign (Num a)))"
| "jdiv NaN b = NaN"
| "jdiv a NaN = NaN"
| "jdiv (Num a) b = Num 0"
| "jdiv a (Num b) = signedInf (jsign a * (if b < 0 then - 1 else 1))"
| "jdiv a b = NaN"

fun jsqrt :: "jsnum \<Rightarrow> jsnum" where
  "jsqrt (Num a) = (if a < 0 then NaN else Num (sqrt a))"
| "jsqrt PosInf = PosInf"
| "jsqrt a = NaN"

fun jmin :: "jsnum \<Rightarrow> jsnum \<Rightarrow> jsnum" where
  "jmin (Num a) (Num b) = Num (min a b)"
| "jmin NaN b = NaN"
| "jmin a NaN = NaN"
| "jmin NegInf b = NegInf"
| "jmin a NegInf = NegInf"
| "jmin PosInf b = b"
| "jmin a PosInf = a"

fun jisFinite :: "jsnum \<Rightarrow> bool" where
  "jisFinite (Num a) = True"
| "jisFinite a = False"

datatype JVector = JVector (jx: jsnum) (jy: jsnum)

definition jv_add :: "JVector \<Rightarrow> JVector \<Rightarrow> JVector" where
  "jv_add this v = JVector (jadd (jx this) (jx v)) (jadd (jy this) (jy v))"

definition jv_sub :: "JVector \<Rightarrow> JVector \<Rightarrow> JVector" where
  "jv_sub this v = JVector (jsub (jx this) (jx v)) (jsub (jy this) (jy v))"

definition jv_mult :: "JVector \<Rightarrow> jsnum \<Rightarrow> JVector" where
  "jv_mult this n = JVector (jmul (jx this) n) (jmul (jy this) n)"

definition jv_mag :: "JVector \<Rightarrow> jsnum" where
  "jv_mag this = jsqrt (jadd (jmul (jx this) (jx this)) (jmul (jy this) (jy this)))"

definition jv_normalize :: "JVector \<Rightarrow> JVector" where
  "jv_normalize this =
     (let m = jv_mag this in
      if m \<noteq> Num 0 \<and> jisFinite m then JVector (jdiv (jx this) m) (jdiv (jy this) m)
      else this)"

text \<open>\<^verbatim>\<open>normalize\<close> as it would be without its guard, to compare with.\<close>

definition jv_normalize_unguarded :: "JVector \<Rightarrow> JVector" where
  "jv_normalize_unguarded this =
     (let m = jv_mag this in JVector (jdiv (jx this) m) (jdiv (jy this) m))"

text \<open>\<^verbatim>\<open>getLaunchVector\<close> when the launch body is found; what the function reads from the
  globals is given as arguments: the position and velocity of the launch body, the
  pointer, \<^verbatim>\<open>scaleFactor\<close>, \<^verbatim>\<open>launchForceMin\<close> and \<^verbatim>\<open>launchForceMax\<close>.\<close>

definition jgetLaunchVector ::
  "JVector \<Rightarrow> JVector \<Rightarrow> JVector \<Rightarrow> jsnum \<Rightarrow> jsnum \<Rightarrow> jsnum \<Rightarrow> JVector \<times> jsnum" where
  "jgetLaunchVector earthPos earthVel target scale forceMin forceMax =
     (let dir = jv_sub target earthPos;
          dist = jv_mag dir;
          dir = jv_normalize dir;
          ratio = jdiv (jmin dist (jmul (Num 300) scale)) (jmul (Num 300) scale);
          force = jadd forceMin (jmul (jsub forceMax forceMin) ratio);
          launchVel = jv_mult dir force;
          launchVel = jv_add launchVel earthVel
      in (launchVel, ratio))"

text \<open>The embedding of the real-valued model.\<close>

definition jvec :: "Vector \<Rightarrow> JVector" where
  "jvec v = JVector (Num (vx v)) (Num (vy v))"

text \<open>\<^verbatim>\<open>resize\<close>: the scale factor it sets from the size of the window.\<close>

definition resize_scaleFactor :: "real \<Rightarrow> real \<Rightarrow> real" where
  "resize_scaleFactor wd ht =
     (let s = min wd ht / 800;
          s = (if s > 12 / 10 then 12 / 10 else s);
          s = (if s < 6 / 10 then 6 / 10 else s)
      in s)"

subsection \<open>A sample state\<close>

text \<open>\<^verbatim>\<open>UpgradeSystem.init\<close>, from the built-in upgrade table.\<close>

fun initUpgrades :: "track \<Rightarrow> upgrade" where
  "initUpgrades FuelTrack =
     \<lparr>level = 1, cost = 50, name = ''Fuel Tank'', maxLevel = 5, costMultiplier = 15 / 10\<rparr>"
| "initUpgrades ThrustTrack =
     \<lparr>level = 1, cost = 80, name = ''Ion Engine'', maxLevel = 5, costMultiplier = 15 / 10\<rparr>"
| "initUpgrades LaunchTrack =
     \<lparr>level = 1, cost = 60, name = ''Catapult'', maxLevel = 5, costMultiplier = 15 / 10\<rparr>"

text \<open>
  The sun, the launch body, its moon and the destination as \<^verbatim>\<open>createSolarSystem\<close> builds
  them on a window of 800 by 800 (scale factor 1), the destination already on its orbit.
  The examples below place a rocket in this state.
\<close>

definition sun0 :: Body where
  "sun0 = newBody 1 400 400 5000 30 ''#ffd700'' True Sun 0"

definition earth0 :: Body where
  "earth0 = (newBody 1 576 400 100 10 ''#4facfe'' False TargetStart 0)
     \<lparr>orbitCenter := Some (Vector 400 400), orbitRadius := 176, orbitAngle := 0,
      orbitSpeed := 5 / 1000\<rparr>"

definition moon0 :: Body where
  "moon0 = (newBody 1 601 400 10 3 ''#ccc'' False Moon 0)
     \<lparr>parentBody := Some 1, orbitRadius := 25, orbitSpeed := 8 / 100\<rparr>"

definition mars0 :: Body where
  "mars0 = (newBody 1 120 400 80 9 ''#ff5e62'' False TargetEnd pi)
     \<lparr>orbitCenter := Some (Vector 400 400), orbitRadius := 280, orbitSpeed := 3 / 1000\<rparr>"

definition world0 :: world where
  "world0 =
     \<lparr>width = 800, height = 800, cx = 400, cy = 400, scaleFactor = 1, frameCount = 0,
      lastTimestamp = 1, accumulator = 0, mode = IDLE, coins = 0, closestDist = Infinity,
      isThrusting = False, shakeStrength = 0, isPaused = False,
      bodies = [sun0, earth0, moon0, mars0], rocket = None, ghostTrail = [], particles = [],
      mouse = Vector 400 400, upgrades = initUpgrades, msgTitle = []\<rparr>"

text \<open>A rocket in flight at the point \<open>(px, py)\<close>, of the given age, with a full tank.\<close>

definition rocketAt :: "real \<Rightarrow> real \<Rightarrow> nat \<Rightarrow> Body" where
  "rocketAt px py n = (newBody 1 px py 1 4 ''#fff'' False Rocket 0)\<lparr>fuel := 100, age := n\<rparr>"

definition flying0 :: "real \<Rightarrow> real \<Rightarrow> nat \<Rightarrow> world" where
  "flying0 px py n = world0\<lparr>mode := FLYING, rocket := Some (rocketAt px py n)\<rparr>"

text \<open>The sample state with the launch body moving as \<^verbatim>\<open>update\<close> makes it move at
  angle 0: at \<open>176 * 0.005 = 0.88\<close> per tick, upwards in the plane.\<close>

definition w_launch :: world where
  "w_launch = world0\<lparr>bodies := [sun0, earth0\<lparr>vel := Vector 0 (88 / 100)\<rparr>, moon0, mars0]\<rparr>"

section \<open>Vectors\<close>

lemma mag_nonneg: "0 \<le> mag v"
  by (simp add: mag_def)

lemma mag_zero_iff: "mag v = 0 \<longleftrightarrow> v = Vector 0 0"
  by (cases v) (simp add: mag_def sum_squares_eq_zero_iff)

lemma mag_x_axis: "mag (Vector a 0) = \<bar>a\<bar>"
  by (simp add: mag_def)

lemma mag_y_axis: "mag (Vector 0 a) = \<bar>a\<bar>"
  by (simp add: mag_def)

lemma mag_mult: "mag (mult v k) = \<bar>k\<bar> * mag v"
proof -
  have "vx v * k * (vx v * k) + vy v * k * (vy v * k) = k\<^sup>2 * (vx v * vx v + vy v * vy v)"
    by (simp add: power2_eq_square algebra_simps)
  then show ?thesis
    by (simp add: mag_def mult_def real_sqrt_mult)
qed

lemma normalize_v_zero: "mag v = 0 \<Longrightarrow> normalize_v v = v"
  by (simp add: normalize_v_def)

lemma normalize_v_nonzero: "mag v \<noteq> 0 \<Longrightarrow> normalize_v v = mult v (1 / mag v)"
  by (simp add: normalize_v_def mult_def isFinite_def Let_def)

lemma mag_normalize_v: "mag v \<noteq> 0 \<Longrightarrow> mag (normalize_v v) = 1"
  using mag_nonneg [of v] by (simp add: normalize_v_nonzero mag_mult)

lemma type_sample [simp]:
  "type sun0 = Sun" "type earth0 = TargetStart" "type moon0 = Moon" "type mars0 = TargetEnd"
  by (simp_all add: sun0_def earth0_def moon0_def mars0_def newBody_def)

section \<open>The end of a run\<close>


text \<open>The examples of the specification: a closest approach of 40 earns 30 coins, one of
  200 earns none, and a crash earns none even at a closest approach of 5.\<close>

lemma endGame_examples:
  "coins (endGame False ''lost_space'' (world0\<lparr>closestDist := Finite 40\<rparr>)) = 30"
  "coins (endGame False ''lost_space'' (world0\<lparr>closestDist := Finite 200\<rparr>)) = 0"
  "coins (endGame False ''crashed'' (world0\<lparr>closestDist := Finite 5\<rparr>)) = 0"
  "coins (endGame True ''landed'' world0) = 100"
  by (simp_all add: endGame_def saveGhostTrail_def Let_def LANDING_REWARD_def
        MAX_DISTANCE_SCORE_def world0_def)

section \<open>Upgrades\<close>

text \<open>
  C8. \<^verbatim>\<open>UpgradeSystem.buy\<close> succeeds exactly when the level of the track is below its
  maximum and the coins cover the cost.  Then the coins go down by the cost, the level goes
  up by one, the cost becomes \<open>\<lfloor>cost * costMultiplier\<rfloor>\<close> and the other tracks are untouched.
  Otherwise the whole state is unchanged; the function has no failing branch.
\<close>

theorem buy_atomic:
  "(level (upgrades w t) < maxLevel (upgrades w t) \<and> cost (upgrades w t) \<le> coins w \<longrightarrow>
      coins (buy t w) = coins w - cost (upgrades w t)
      \<and> level (upgrades (buy t w) t) = level (upgrades w t) + 1
      \<and> cost (upgrades (buy t w) t)
          = \<lfloor>real_of_int (cost (upgrades w t)) * costMultiplier (upgrades w t)\<rfloor>
      \<and> (\<forall>t'. t' \<noteq> t \<longrightarrow> upgrades (buy t w) t' = upgrades w t'))
   \<and> (\<not> (level (upgrades w t) < maxLevel (upgrades w t) \<and> cost (upgrades w t) \<le> coins w) \<longrightarrow>
      buy t w = w)
   \<and> (level (upgrades (buy t w) t) = level (upgrades w t) + 1 \<longleftrightarrow>
      level (upgrades w t) < maxLevel (upgrades w t) \<and> cost (upgrades w t) \<le> coins w)"
  by (simp add: buy_def Let_def)

text \<open>With 60 coins the fuel tank (cost 50) is bought and its next cost is 75; with 49
  coins, or at the maximal level 5, nothing changes.\<close>

theorem buy_atomic_witness:
  "coins (buy FuelTrack (world0\<lparr>coins := 60\<rparr>)) = 10
   \<and> level (upgrades (buy FuelTrack (world0\<lparr>coins := 60\<rparr>)) FuelTrack) = 2
   \<and> cost (upgrades (buy FuelTrack (world0\<lparr>coins := 60\<rparr>)) FuelTrack) = 75
   \<and> upgrades (buy FuelTrack (world0\<lparr>coins := 60\<rparr>)) ThrustTrack = initUpgrades ThrustTrack
   \<and> buy FuelTrack (world0\<lparr>coins := 49\<rparr>) = world0\<lparr>coins := 49\<rparr>
   \<and> buy FuelTrack (world0\<lparr>coins := 1000,
        upgrades := initUpgrades (FuelTrack := (initUpgrades FuelTrack)\<lparr>level := 5\<rparr>)\<rparr>)
      = world0\<lparr>coins := 1000,
        upgrades := initUpgrades (FuelTrack := (initUpgrades FuelTrack)\<lparr>level := 5\<rparr>)\<rparr>"
proof -
  have f: "\<lfloor>(50::real) * 15 / 10\<rfloor> = 75"
    by simp
  show ?thesis
    using buy_atomic [of "world0\<lparr>coins := 60\<rparr>" FuelTrack]
      buy_atomic [of "world0\<lparr>coins := 49\<rparr>" FuelTrack]
      buy_atomic [of "world0\<lparr>coins := 1000,
        upgrades := initUpgrades (FuelTrack := (initUpgrades FuelTrack)\<lparr>level := 5\<rparr>)\<rparr>" FuelTrack]
    by (simp add: world0_def f)
qed

section \<open>The launch vector\<close>

text \<open>
  C4. When there is a launch body and the scale factor is positive (\<^verbatim>\<open>resize\<close> keeps it
  between 0.6 and 1.2), \<^verbatim>\<open>getLaunchVector\<close> returns the normalised direction from the
  launch body to the pointer, scaled by
  \<open>launchForceMin + (launchForceMax - launchForceMin) * ratio\<close>, plus the velocity of the
  launch body, where \<open>ratio = min dist (300 * scale) / (300 * scale)\<close> lies between 0 and 1
  and is returned as the power.
\<close>

theorem getLaunchVector_formula:
  assumes "find (\<lambda>b. type b = TargetStart) (bodies w) = Some earth"
    and "0 < scaleFactor w"
  shows "let ratio = min (mag (sub (mouse w) (pos earth))) (300 * scaleFactor w)
                       / (300 * scaleFactor w);
             force = launchForceMin (getStats w)
                       + (launchForceMax (getStats w) - launchForceMin (getStats w)) * ratio
         in getLaunchVector w
              = (add (mult (normalize_v (sub (mouse w) (pos earth))) force) (vel earth), ratio)
            \<and> 0 \<le> ratio \<and> ratio \<le> 1"
proof -
  have "0 \<le> min (mag (sub (mouse w) (pos earth))) (300 * scaleFactor w)"
    using assms(2) mag_nonneg [of "sub (mouse w) (pos earth)"] by simp
  moreover have "min (mag (sub (mouse w) (pos earth))) (300 * scaleFactor w) \<le> 300 * scaleFactor w"
    by simp
  ultimately show ?thesis
    using assms by (simp add: getLaunchVector_def Let_def MAX_INPUT_DIST_def)
qed

text \<open>The example of the specification: a launch body moving at \<open>(2, 0)\<close> and an aim that
  gives the impulse \<open>(3, 0)\<close> launch the rocket at \<open>(5, 0)\<close>.\<close>

theorem getLaunchVector_formula_witness:
  "find (\<lambda>b. type b = TargetStart)
      (bodies (world0\<lparr>bodies := [sun0, earth0\<lparr>vel := Vector 2 0\<rparr>],
                      mouse := Vector (576 + 900 / 7) 400\<rparr>))
     = Some (earth0\<lparr>vel := Vector 2 0\<rparr>)
   \<and> getLaunchVector (world0\<lparr>bodies := [sun0, earth0\<lparr>vel := Vector 2 0\<rparr>],
                             mouse := Vector (576 + 900 / 7) 400\<rparr>)
     = (Vector 5 0, 3 / 7)"
proof -
  let ?e = "earth0\<lparr>vel := Vector 2 0\<rparr>"
  let ?w = "world0\<lparr>bodies := [sun0, ?e], mouse := Vector (576 + 900 / 7) 400\<rparr>"
  have h1: "find (\<lambda>b. type b = TargetStart) (bodies ?w) = Some ?e"
    by (simp add: world0_def)
  have h2: "0 < scaleFactor ?w"
    by (simp add: world0_def)
  have p: "pos ?e = Vector 576 400" "vel ?e = Vector 2 0"
    by (simp_all add: earth0_def newBody_def)
  have m: "mouse ?w = Vector (576 + 900 / 7) 400" "scaleFactor ?w = 1"
    by (simp_all add: world0_def)
  have s: "launchForceMin (getStats ?w) = 3 / 2" "launchForceMax (getStats ?w) = 5"
    by (simp_all add: getStats_def world0_def)
  show ?thesis
    using h1 getLaunchVector_formula [OF h1 h2]
    unfolding p m s
    by (simp add: Let_def sub_def add_def mult_def mag_x_axis normalize_v_def isFinite_def)
qed

lemma resize_scaleFactor_range:
  "6 / 10 \<le> resize_scaleFactor wd ht \<and> resize_scaleFactor wd ht \<le> 12 / 10"
  by (auto simp add: resize_scaleFactor_def Let_def min_def)

section \<open>Normalising without dividing by zero\<close>

text \<open>On finite numbers the model over JavaScript's numbers agrees with the real-valued
  one.\<close>

lemma jv_mag_jvec: "jv_mag (jvec v) = Num (mag v)"
proof -
  have "\<not> vx v * vx v + vy v * vy v < 0"
    by (simp add: not_less)
  then show ?thesis
    by (simp add: jv_mag_def jvec_def mag_def)
qed

lemma jv_normalize_jvec: "jv_normalize (jvec v) = jvec (normalize_v v)"
  by (simp add: jv_normalize_def jv_mag_jvec normalize_v_def isFinite_def Let_def)
     (simp add: jvec_def)

lemma jgetLaunchVector_refines:
  assumes "find (\<lambda>b. type b = TargetStart) (bodies w) = Some earth"
    and "scaleFactor w \<noteq> 0"
  shows "jgetLaunchVector (jvec (pos earth)) (jvec (vel earth)) (jvec (mouse w))
           (Num (scaleFactor w)) (Num (launchForceMin (getStats w)))
           (Num (launchForceMax (getStats w)))
         = (jvec (fst (getLaunchVector w)), Num (snd (getLaunchVector w)))"
proof -
  have s: "jv_sub (jvec a) (jvec b) = jvec (sub a b)" for a b
    by (simp add: jv_sub_def jvec_def sub_def jsub_def)
  have m: "jv_mult (jvec a) (Num k) = jvec (mult a k)" for a k
    by (simp add: jv_mult_def jvec_def mult_def)
  have a: "jv_add (jvec a) (jvec b) = jvec (add a b)" for a b
    by (simp add: jv_add_def jvec_def add_def)
  show ?thesis
    using assms
    by (simp add: jgetLaunchVector_def getLaunchVector_def Let_def s jv_mag_jvec
          jv_normalize_jvec jsub_def m a MAX_INPUT_DIST_def)
qed

text \<open>Without the guard, normalising the zero vector would divide zero by zero.\<close>

lemma jv_normalize_unguarded_zero:
  "jv_normalize_unguarded (JVector (Num 0) (Num 0)) = JVector NaN NaN"
  by (simp add: jv_normalize_unguarded_def jv_mag_def Let_def signedInf_def)

text \<open>
  C10. \<^verbatim>\<open>Vector.normalize\<close> leaves a vector unchanged when its magnitude is zero or is
  not finite (NaN or infinite), so it never divides by zero.  Hence, with a positive
  scale factor and finite data, aiming exactly at the position of the launch body gives
  the launch body's own velocity as launch velocity, with power 0: every component is a
  finite number.  The same holds in the real-valued model.
\<close>

theorem normalize_guard:
  "(jv_mag v = Num 0 \<or> \<not> jisFinite (jv_mag v) \<longrightarrow> jv_normalize v = v)
   \<and> (0 < s \<longrightarrow>
        jgetLaunchVector (jvec p) (jvec u) (jvec p) (Num s) (Num fmin) (Num fmax)
          = (jvec u, Num 0))
   \<and> (find (\<lambda>b. type b = TargetStart) (bodies w) = Some earth \<longrightarrow> mouse w = pos earth \<longrightarrow>
        0 < scaleFactor w \<longrightarrow> getLaunchVector w = (vel earth, 0))"
proof (intro conjI impI)
  assume "jv_mag v = Num 0 \<or> \<not> jisFinite (jv_mag v)"
  then show "jv_normalize v = v"
    by (auto simp add: jv_normalize_def Let_def)
next
  assume "0 < s"
  then show "jgetLaunchVector (jvec p) (jvec u) (jvec p) (Num s) (Num fmin) (Num fmax)
          = (jvec u, Num 0)"
    by (simp add: jgetLaunchVector_def Let_def jv_sub_def jvec_def jsub_def jv_mag_def
          jv_normalize_def jv_mult_def jv_add_def)
next
  assume "find (\<lambda>b. type b = TargetStart) (bodies w) = Some earth" "mouse w = pos earth"
    "0 < scaleFactor w"
  then show "getLaunchVector w = (vel earth, 0)"
    by (simp add: getLaunchVector_def Let_def sub_def mag_def normalize_v_def mult_def add_def
          MAX_INPUT_DIST_def)
qed

text \<open>The zero vector and a vector with an infinite component are left as they are; a
  launch aimed at the launch body, which moves at \<open>(0, 0.88)\<close>, starts at that velocity.\<close>

theorem normalize_guard_witness:
  "jv_mag (JVector (Num 0) (Num 0)) = Num 0
   \<and> jv_normalize (JVector (Num 0) (Num 0)) = JVector (Num 0) (Num 0)
   \<and> \<not> jisFinite (jv_mag (JVector PosInf (Num 1)))
   \<and> jv_normalize (JVector PosInf (Num 1)) = JVector PosInf (Num 1)
   \<and> jgetLaunchVector (jvec (Vector 576 400)) (jvec (Vector 0 (88 / 100)))
        (jvec (Vector 576 400)) (Num 1) (Num (3 / 2)) (Num 5)
      = (jvec (Vector 0 (88 / 100)), Num 0)
   \<and> getLaunchVector (world0\<lparr>bodies := [sun0, earth0\<lparr>vel := Vector 0 (88 / 100)\<rparr>],
                             mouse := Vector 576 400\<rparr>)
      = (Vector 0 (88 / 100), 0)"
proof -
  let ?e = "earth0\<lparr>vel := Vector 0 (88 / 100)\<rparr>"
  let ?w = "world0\<lparr>bodies := [sun0, ?e], mouse := Vector 576 400\<rparr>"
  have h1: "jv_mag (JVector (Num 0) (Num 0)) = Num 0"
    by (simp add: jv_mag_def)
  have h2: "\<not> jisFinite (jv_mag (JVector PosInf (Num 1)))"
    by (simp add: jv_mag_def signedInf_def)
  have h3: "find (\<lambda>b. type b = TargetStart) (bodies ?w) = Some ?e"
    by (simp add: world0_def)
  have h4: "mouse ?w = pos ?e" "0 < scaleFactor ?w" "vel ?e = Vector 0 (88 / 100)"
    by (simp_all add: world0_def earth0_def newBody_def)
  show ?thesis
    using h1 h2 h3 h4
      normalize_guard [of "JVector (Num 0) (Num 0)" 1 "Vector 576 400" "Vector 0 (88 / 100)"
        "3 / 2" 5 ?w ?e]
      normalize_guard [of "JVector PosInf (Num 1)" 1 "Vector 576 400" "Vector 0 (88 / 100)"
        "3 / 2" 5 ?w ?e]
    by simp
qed

section \<open>What each function leaves alone\<close>

lemma endGame_keeps [simp]:
  "bodies (endGame s r w) = bodies w"
  "accumulator (endGame s r w) = accumulator w"
  "lastTimestamp (endGame s r w) = lastTimestamp w"
  "frameCount (endGame s r w) = frameCount w"
  "scaleFactor (endGame s r w) = scaleFactor w"
  "particles (endGame s r w) = particles w"
  "shakeStrength (endGame s r w) = shakeStrength w"
  "closestDist (endGame s r w) = closestDist w"
  "rocket (endGame s r w) = None"
  "mode (endGame s r w) = ENDED"
  by (simp_all add: endGame_def saveGhostTrail_def Let_def split: option.split)

lemma spawnExplosion_keeps [simp]:
  "bodies (spawnExplosion a b c w) = bodies w"
  "accumulator (spawnExplosion a b c w) = accumulator w"
  "lastTimestamp (spawnExplosion a b c w) = lastTimestamp w"
  "frameCount (spawnExplosion a b c w) = frameCount w"
  "scaleFactor (spawnExplosion a b c w) = scaleFactor w"
  "closestDist (spawnExplosion a b c w) = closestDist w"
  "rocket (spawnExplosion a b c w) = rocket w"
  "mode (spawnExplosion a b c w) = mode w"
  "coins (spawnExplosion a b c w) = coins w"
  "msgTitle (spawnExplosion a b c w) = msgTitle w"
  by (simp_all add: spawnExplosion_def)

lemma thrust_keeps [simp]:
  "bodies (thrust w) = bodies w"
  "accumulator (thrust w) = accumulator w"
  "lastTimestamp (thrust w) = lastTimestamp w"
  "frameCount (thrust w) = frameCount w"
  "scaleFactor (thrust w) = scaleFactor w"
  "closestDist (thrust w) = closestDist w"
  "mode (thrust w) = mode w"
  "coins (thrust w) = coins w"
  "msgTitle (thrust w) = msgTitle w"
  "isThrusting (thrust w) = isThrusting w"
  "shakeStrength (thrust w) = shakeStrength w"
  "ghostTrail (thrust w) = ghostTrail w"
  "isPaused (thrust w) = isPaused w"
  "cx (thrust w) = cx w"
  "cy (thrust w) = cy w"
  "width (thrust w) = width w"
  "height (thrust w) = height w"
  "mouse (thrust w) = mouse w"
  by (simp_all add: thrust_def Let_def split: option.split)

lemma collide_keeps [simp]:
  "bodies (collide d body r w) = bodies w"
  "accumulator (collide d body r w) = accumulator w"
  "lastTimestamp (collide d body r w) = lastTimestamp w"
  "frameCount (collide d body r w) = frameCount w"
  "scaleFactor (collide d body r w) = scaleFactor w"
  "closestDist (collide d body r w) = closestDist w"
  by (cases d; simp add: Let_def split: option.split)+

lemma gravityLoop_keeps_all:
  "bodies (fst (gravityLoop d bs w)) = bodies w
   \<and> accumulator (fst (gravityLoop d bs w)) = accumulator w
   \<and> lastTimestamp (fst (gravityLoop d bs w)) = lastTimestamp w
   \<and> frameCount (fst (gravityLoop d bs w)) = frameCount w
   \<and> scaleFactor (fst (gravityLoop d bs w)) = scaleFactor w
   \<and> closestDist (fst (gravityLoop d bs w)) = closestDist w"
  by (induction bs arbitrary: w) (auto simp add: Let_def split: option.split draft.split)

lemma gravityLoop_keeps [simp]:
  "bodies (fst (gravityLoop d bs w)) = bodies w"
  "accumulator (fst (gravityLoop d bs w)) = accumulator w"
  "lastTimestamp (fst (gravityLoop d bs w)) = lastTimestamp w"
  "frameCount (fst (gravityLoop d bs w)) = frameCount w"
  "scaleFactor (fst (gravityLoop d bs w)) = scaleFactor w"
  "closestDist (fst (gravityLoop d bs w)) = closestDist w"
  using gravityLoop_keeps_all [of d bs w] by simp_all

lemma trackClosest_keeps [simp]:
  "bodies (trackClosest w) = bodies w"
  "accumulator (trackClosest w) = accumulator w"
  "lastTimestamp (trackClosest w) = lastTimestamp w"
  "frameCount (trackClosest w) = frameCount w"
  "scaleFactor (trackClosest w) = scaleFactor w"
  "rocket (trackClosest w) = rocket w"
  "mode (trackClosest w) = mode w"
  "coins (trackClosest w) = coins w"
  "particles (trackClosest w) = particles w"
  "shakeStrength (trackClosest w) = shakeStrength w"
  "msgTitle (trackClosest w) = msgTitle w"
  "isThrusting (trackClosest w) = isThrusting w"
  "cx (trackClosest w) = cx w"
  "cy (trackClosest w) = cy w"
  "width (trackClosest w) = width w"
  "height (trackClosest w) = height w"
  "mouse (trackClosest w) = mouse w"
  by (simp_all add: trackClosest_def Let_def split: option.split dist.split)

lemma calculateGravity_keeps [simp]:
  "bodies (calculateGravity d w) = bodies w"
  "accumulator (calculateGravity d w) = accumulator w"
  "lastTimestamp (calculateGravity d w) = lastTimestamp w"
  "frameCount (calculateGravity d w) = frameCount w"
  "scaleFactor (calculateGravity d w) = scaleFactor w"
  by (simp_all add: calculateGravity_def Let_def split: option.split)

lemma fold_updateAt: "fold updateAt xs w = w\<lparr>bodies := bodies (fold updateAt xs w)\<rparr>"
proof (induction xs arbitrary: w)
  case Nil
  show ?case by simp
next
  case (Cons i xs)
  have "fold updateAt (i # xs) w = fold updateAt xs (updateAt i w)"
    by simp
  also have "\<dots> = (updateAt i w)\<lparr>bodies := bodies (fold updateAt xs (updateAt i w))\<rparr>"
    by (rule Cons.IH)
  also have "\<dots> = w\<lparr>bodies := bodies (fold updateAt xs (updateAt i w))\<rparr>"
    by (simp add: updateAt_def)
  finally show ?case by simp
qed

lemma updateBodies_eq: "updateBodies w = w\<lparr>bodies := bodies (updateBodies w)\<rparr>"
  unfolding updateBodies_def by (rule fold_updateAt)

lemma updateBodies_keeps [simp]:
  "accumulator (updateBodies w) = accumulator w"
  "lastTimestamp (updateBodies w) = lastTimestamp w"
  "frameCount (updateBodies w) = frameCount w"
  "scaleFactor (updateBodies w) = scaleFactor w"
  "rocket (updateBodies w) = rocket w"
  "mode (updateBodies w) = mode w"
  "coins (updateBodies w) = coins w"
  "closestDist (updateBodies w) = closestDist w"
  "particles (updateBodies w) = particles w"
  "shakeStrength (updateBodies w) = shakeStrength w"
  "msgTitle (updateBodies w) = msgTitle w"
  "isThrusting (updateBodies w) = isThrusting w"
  "mouse (updateBodies w) = mouse w"
  "cx (updateBodies w) = cx w"
  "cy (updateBodies w) = cy w"
  "width (updateBodies w) = width w"
  "height (updateBodies w) = height w"
  "upgrades (updateBodies w) = upgrades w"
  "ghostTrail (updateBodies w) = ghostTrail w"
  "isPaused (updateBodies w) = isPaused w"
  by (subst updateBodies_eq, simp)+

lemma updateRocket_keeps [simp]:
  "bodies (updateRocket w) = bodies w"
  "accumulator (updateRocket w) = accumulator w"
  "lastTimestamp (updateRocket w) = lastTimestamp w"
  "frameCount (updateRocket w) = frameCount w"
  "scaleFactor (updateRocket w) = scaleFactor w"
  "closestDist (updateRocket w) = closestDist w"
  by (simp_all add: updateRocket_def Let_def split: option.split)

lemma physicsStep_keeps [simp]:
  "accumulator (physicsStep d w) = accumulator w"
  "lastTimestamp (physicsStep d w) = lastTimestamp w"
  "frameCount (physicsStep d w) = frameCount w"
  "scaleFactor (physicsStep d w) = scaleFactor w"
  by (simp_all add: physicsStep_def)

section \<open>Orbits\<close>

lemma update_orbitCenter:
  assumes "orbitCenter b = Some c"
  shows "pos (update w b) = Vector (vx c + cos (orbitAngle b + orbitSpeed b) * orbitRadius b)
                                   (vy c + sin (orbitAngle b + orbitSpeed b) * orbitRadius b)"
    and "vel (update w b)
          = Vector (- sin (orbitAngle b + orbitSpeed b) * orbitRadius b * orbitSpeed b)
                   (cos (orbitAngle b + orbitSpeed b) * orbitRadius b * orbitSpeed b)"
    and "orbitAngle (update w b) = orbitAngle b + orbitSpeed b"
  using assms
  by (simp_all add: update_def update_motion_def update_rocket_def update_trail_def Let_def)

lemma update_parent:
  assumes "orbitCenter b = None" "parentOf w b = Some p"
  shows "pos (update w b)
          = Vector (vx (pos p) + cos (orbitAngle b + orbitSpeed b) * orbitRadius b)
                   (vy (pos p) + sin (orbitAngle b + orbitSpeed b) * orbitRadius b)"
    and "vel (update w b)
          = Vector (vx (vel p) - sin (orbitAngle b + orbitSpeed b) * orbitRadius b * orbitSpeed b)
                   (vy (vel p) + cos (orbitAngle b + orbitSpeed b) * orbitRadius b * orbitSpeed b)"
    and "orbitAngle (update w b) = orbitAngle b + orbitSpeed b"
  using assms
  by (simp_all add: update_def update_motion_def update_rocket_def update_trail_def Let_def)

lemma update_keeps [simp]:
  "orbitCenter (update w b) = orbitCenter b"
  "parentBody (update w b) = parentBody b"
  "orbitRadius (update w b) = orbitRadius b"
  "orbitSpeed (update w b) = orbitSpeed b"
  "type (update w b) = type b"
  "fuel (update w b) = fuel b"
  "mass (update w b) = mass b"
  "radius (update w b) = radius b"
  "color (update w b) = color b"
  by (simp_all add: update_def update_motion_def update_rocket_def update_trail_def Let_def
        split: option.split)

lemma on_circle: "mag (sub (Vector (vx c + cos a * r) (vy c + sin a * r)) c) = \<bar>r\<bar>"
proof -
  have "cos a * r * (cos a * r) + sin a * r * (sin a * r)
          = r * r * (cos a * cos a + sin a * sin a)"
    by (simp only: algebra_simps)
  then have "cos a * r * (cos a * r) + sin a * r * (sin a * r) = r * r"
    by (simp only: sin_cos_squared_add3 mult_1_right)
  then show ?thesis
    by (simp add: mag_def sub_def)
qed

text \<open>The loop over the bodies, after its first \<open>n\<close> passes.\<close>

lemma updateAt_length [simp]: "length (bodies (updateAt i w)) = length (bodies w)"
  by (simp add: updateAt_def)

lemma fold_updateAt_prefix:
  assumes "n \<le> length (bodies w)"
  shows "length (bodies (fold updateAt [0..<n] w)) = length (bodies w)
         \<and> (\<forall>j. n \<le> j \<longrightarrow> bodies (fold updateAt [0..<n] w) ! j = bodies w ! j)
         \<and> (\<forall>i<n. bodies (fold updateAt [0..<n] w) ! i
                     = update (fold updateAt [0..<i] w) (bodies w ! i))"
  using assms
proof (induction n)
  case 0
  show ?case by simp
next
  case (Suc n)
  let ?w = "fold updateAt [0..<n] w"
  from Suc have ih: "length (bodies ?w) = length (bodies w)"
    "\<And>j. n \<le> j \<Longrightarrow> bodies ?w ! j = bodies w ! j"
    "\<And>i. i < n \<Longrightarrow> bodies ?w ! i = update (fold updateAt [0..<i] w) (bodies w ! i)"
    by simp_all
  have st: "fold updateAt [0..<Suc n] w = updateAt n ?w"
    by simp
  have nth: "bodies (updateAt n ?w) ! j
      = (if j = n then update ?w (bodies w ! n) else bodies ?w ! j)" for j
    using Suc.prems ih(1) ih(2) [of n] by (simp add: updateAt_def nth_list_update)
  show ?case
    unfolding st
  proof (intro conjI allI impI)
    show "length (bodies (updateAt n ?w)) = length (bodies w)"
      using ih(1) by simp
  next
    fix j assume "Suc n \<le> j"
    then show "bodies (updateAt n ?w) ! j = bodies w ! j"
      using ih(2) [of j] by (simp add: nth)
  next
    fix i assume "i < Suc n"
    then show "bodies (updateAt n ?w) ! i = update (fold updateAt [0..<i] w) (bodies w ! i)"
      using ih(3) [of i] by (cases "i = n") (simp_all add: nth)
  qed
qed

lemma updateBodies_length [simp]: "length (bodies (updateBodies w)) = length (bodies w)"
  using fold_updateAt_prefix [of "length (bodies w)" w] by (simp add: updateBodies_def)

lemma updateBodies_nth:
  assumes "i < length (bodies w)"
  shows "bodies (updateBodies w) ! i = update (fold updateAt [0..<i] w) (bodies w ! i)"
  using fold_updateAt_prefix [of "length (bodies w)" w] assms by (simp add: updateBodies_def)

lemma updateBodies_parent:
  assumes "i < length (bodies w)" "j < i"
  shows "bodies (fold updateAt [0..<i] w) ! j = bodies (updateBodies w) ! j"
  using fold_updateAt_prefix [of i w] fold_updateAt_prefix [of "length (bodies w)" w] assms
  by (simp add: updateBodies_def)

lemma physicsStep_bodies: "bodies (physicsStep d w) = bodies (updateBodies (calculateGravity d w))"
  by (simp add: physicsStep_def)

lemma physicsStep_length [simp]: "length (bodies (physicsStep d w)) = length (bodies w)"
  by (simp add: physicsStep_bodies)

lemma physicsStep_nth:
  assumes "i < length (bodies w)"
  shows "bodies (physicsStep d w) ! i
           = update (fold updateAt [0..<i] (calculateGravity d w)) (bodies w ! i)"
  using assms by (simp add: physicsStep_bodies updateBodies_nth)

lemma physicsStep_orbit:
  assumes "i < length (bodies w)" "orbitCenter (bodies w ! i) = Some c"
  shows "orbitCenter (bodies (physicsStep d w) ! i) = Some c"
    and "orbitRadius (bodies (physicsStep d w) ! i) = orbitRadius (bodies w ! i)"
    and "orbitSpeed (bodies (physicsStep d w) ! i) = orbitSpeed (bodies w ! i)"
    and "orbitAngle (bodies (physicsStep d w) ! i)
           = orbitAngle (bodies w ! i) + orbitSpeed (bodies w ! i)"
    and "pos (bodies (physicsStep d w) ! i)
           = Vector (vx c + cos (orbitAngle (bodies (physicsStep d w) ! i)) * orbitRadius (bodies w ! i))
                    (vy c + sin (orbitAngle (bodies (physicsStep d w) ! i)) * orbitRadius (bodies w ! i))"
    and "vel (bodies (physicsStep d w) ! i)
           = Vector (- sin (orbitAngle (bodies (physicsStep d w) ! i)) * orbitRadius (bodies w ! i)
                       * orbitSpeed (bodies w ! i))
                    (cos (orbitAngle (bodies (physicsStep d w) ! i)) * orbitRadius (bodies w ! i)
                       * orbitSpeed (bodies w ! i))"
  using assms by (simp_all add: physicsStep_nth update_orbitCenter)

lemma funpow_orbit:
  assumes "i < length (bodies w)" "orbitCenter (bodies w ! i) = Some c"
  shows "length (bodies ((physicsStep d ^^ n) w)) = length (bodies w)
         \<and> orbitCenter (bodies ((physicsStep d ^^ n) w) ! i) = Some c
         \<and> orbitRadius (bodies ((physicsStep d ^^ n) w) ! i) = orbitRadius (bodies w ! i)
         \<and> orbitSpeed (bodies ((physicsStep d ^^ n) w) ! i) = orbitSpeed (bodies w ! i)
         \<and> orbitAngle (bodies ((physicsStep d ^^ n) w) ! i)
             = orbitAngle (bodies w ! i) + real n * orbitSpeed (bodies w ! i)"
proof (induction n)
  case 0
  show ?case using assms by simp
next
  case (Suc n)
  let ?w = "(physicsStep d ^^ n) w"
  from Suc assms have i: "i < length (bodies ?w)" and c: "orbitCenter (bodies ?w ! i) = Some c"
    by simp_all
  show ?case
    using Suc physicsStep_orbit(1-4) [where d = d, OF i c] by (simp add: algebra_simps)
qed

text \<open>Without the assumption on its sign, the distance is the absolute value of the orbit
  radius.\<close>

lemma orbit_distance_abs:
  assumes "i < length (bodies w)" "orbitCenter (bodies w ! i) = Some c"
  shows "mag (sub (pos (bodies ((physicsStep d ^^ Suc n) w) ! i)) c) = \<bar>orbitRadius (bodies w ! i)\<bar>"
proof -
  let ?w = "(physicsStep d ^^ n) w"
  have f: "length (bodies ?w) = length (bodies w)"
    "orbitCenter (bodies ?w ! i) = Some c"
    "orbitRadius (bodies ?w ! i) = orbitRadius (bodies w ! i)"
    using funpow_orbit [where d = d and n = n, OF assms] by simp_all
  have i: "i < length (bodies ?w)"
    using assms(1) f(1) by simp
  show ?thesis
    using physicsStep_orbit(5) [where d = d, OF i f(2)] f(3) by (simp add: on_circle)
qed

text \<open>
  C7. A body with a fixed orbit centre \<open>c\<close> and a non-negative orbit radius is, after each
  physics tick, at distance exactly its orbit radius from \<open>c\<close>: after the tick number
  \<open>n + 1\<close> its angle is the initial angle plus \<open>n + 1\<close> times its angular speed, its
  position is \<open>c + radius * (cos angle, sin angle)\<close> and its velocity is
  \<open>radius * speed * (- sin angle, cos angle)\<close>.  A body that orbits a parent found earlier
  in the list of bodies is placed around the parent's position of the same tick, and the
  parent's velocity of the same tick is added to its own.
\<close>

theorem orbit_every_tick:
  assumes "i < length (bodies w)"
  shows "(orbitCenter (bodies w ! i) = Some c \<longrightarrow> 0 \<le> orbitRadius (bodies w ! i) \<longrightarrow>
            (let b = bodies w ! i;
                 b' = bodies ((physicsStep d ^^ Suc n) w) ! i;
                 a = orbitAngle b + real (Suc n) * orbitSpeed b
             in mag (sub (pos b') c) = orbitRadius b
                \<and> pos b' = add c (mult (Vector (cos a) (sin a)) (orbitRadius b))
                \<and> vel b' = mult (Vector (- sin a) (cos a)) (orbitRadius b * orbitSpeed b)
                \<and> orbitAngle b' = a \<and> orbitCenter b' = Some c \<and> orbitRadius b' = orbitRadius b))
         \<and> (orbitCenter (bodies w ! i) = None \<longrightarrow> parentBody (bodies w ! i) = Some j \<longrightarrow> j < i \<longrightarrow>
            (let b = bodies w ! i;
                 b' = bodies (physicsStep d w) ! i;
                 p = bodies (physicsStep d w) ! j;
                 a = orbitAngle b + orbitSpeed b
             in pos b' = add (pos p) (mult (Vector (cos a) (sin a)) (orbitRadius b))
                \<and> vel b' = add (vel p) (mult (Vector (- sin a) (cos a))
                                              (orbitRadius b * orbitSpeed b))
                \<and> orbitAngle b' = a))"
proof (intro conjI impI)
  assume c: "orbitCenter (bodies w ! i) = Some c" and r: "0 \<le> orbitRadius (bodies w ! i)"
  let ?w = "(physicsStep d ^^ n) w"
  have f: "length (bodies ?w) = length (bodies w)"
    "orbitCenter (bodies ?w ! i) = Some c"
    "orbitRadius (bodies ?w ! i) = orbitRadius (bodies w ! i)"
    "orbitSpeed (bodies ?w ! i) = orbitSpeed (bodies w ! i)"
    "orbitAngle (bodies ?w ! i) = orbitAngle (bodies w ! i) + real n * orbitSpeed (bodies w ! i)"
    using funpow_orbit [where d = d and n = n, OF assms c] by simp_all
  have i: "i < length (bodies ?w)"
    using assms f(1) by simp
  have a: "orbitAngle (bodies (physicsStep d ?w) ! i)
             = orbitAngle (bodies w ! i) + real (Suc n) * orbitSpeed (bodies w ! i)"
    using physicsStep_orbit(4) [where d = d, OF i f(2)] f by (simp add: algebra_simps)
  show "let b = bodies w ! i;
            b' = bodies ((physicsStep d ^^ Suc n) w) ! i;
            a = orbitAngle b + real (Suc n) * orbitSpeed b
        in mag (sub (pos b') c) = orbitRadius b
           \<and> pos b' = add c (mult (Vector (cos a) (sin a)) (orbitRadius b))
           \<and> vel b' = mult (Vector (- sin a) (cos a)) (orbitRadius b * orbitSpeed b)
           \<and> orbitAngle b' = a \<and> orbitCenter b' = Some c \<and> orbitRadius b' = orbitRadius b"
    using physicsStep_orbit [where d = d, OF i f(2)] f r a
    by (simp add: Let_def on_circle add_def mult_def del: of_nat_Suc)
next
  assume c: "orbitCenter (bodies w ! i) = None" and p: "parentBody (bodies w ! i) = Some j"
    and j: "j < i"
  let ?g = "calculateGravity d w"
  let ?wi = "fold updateAt [0..<i] ?g"
  have i: "i < length (bodies ?g)"
    using assms by simp
  have len: "length (bodies ?wi) = length (bodies w)"
    using fold_updateAt_prefix [of i ?g] i by simp
  have par: "parentOf ?wi (bodies w ! i) = Some (bodies (physicsStep d w) ! j)"
    using p j assms len updateBodies_parent [OF i j]
    by (simp add: parentOf_def physicsStep_bodies)
  show "let b = bodies w ! i;
            b' = bodies (physicsStep d w) ! i;
            p = bodies (physicsStep d w) ! j;
            a = orbitAngle b + orbitSpeed b
        in pos b' = add (pos p) (mult (Vector (cos a) (sin a)) (orbitRadius b))
           \<and> vel b' = add (vel p) (mult (Vector (- sin a) (cos a))
                                         (orbitRadius b * orbitSpeed b))
           \<and> orbitAngle b' = a"
    using update_parent [OF c par] assms
    by (simp add: Let_def physicsStep_nth add_def mult_def)
qed

text \<open>The launch body of the sample state stays at distance 176 from the centre of the
  window, tick after tick; the moon moves with it.\<close>

theorem orbit_every_tick_witness:
  "(1::nat) < length (bodies world0)
   \<and> orbitCenter (bodies world0 ! 1) = Some (Vector 400 400)
   \<and> 0 \<le> orbitRadius (bodies world0 ! 1)
   \<and> mag (sub (pos (bodies (physicsStep GameJs world0) ! 1)) (Vector 400 400)) = 176
   \<and> mag (sub (pos (bodies ((physicsStep Part000 ^^ 3) world0) ! 1)) (Vector 400 400)) = 176
   \<and> pos (bodies ((physicsStep Part000 ^^ 3) world0) ! 1)
       = Vector (400 + cos (15 / 1000) * 176) (400 + sin (15 / 1000) * 176)
   \<and> orbitCenter (bodies world0 ! 2) = None
   \<and> parentBody (bodies world0 ! 2) = Some 1
   \<and> vel (bodies (physicsStep GameJs world0) ! 2)
       = add (vel (bodies (physicsStep GameJs world0) ! 1))
             (mult (Vector (- sin (8 / 100)) (cos (8 / 100))) 2)"
proof -
  have b: "bodies world0 ! 1 = earth0" "bodies world0 ! Suc 0 = earth0"
    "bodies world0 ! 2 = moon0" "length (bodies world0) = 4"
    by (simp_all add: world0_def)
  have e: "orbitCenter earth0 = Some (Vector 400 400)" "orbitRadius earth0 = 176"
    "orbitAngle earth0 = 0" "orbitSpeed earth0 = 5 / 1000"
    by (simp_all add: earth0_def newBody_def)
  have m: "orbitCenter moon0 = None" "parentBody moon0 = Some 1" "orbitRadius moon0 = 25"
    "orbitAngle moon0 = 0" "orbitSpeed moon0 = 8 / 100"
    by (simp_all add: moon0_def newBody_def)
  have three: "Suc 2 = 3"
    by simp
  show ?thesis
    using orbit_every_tick [where i = 1 and w = world0 and c = "Vector 400 400" and d = GameJs
          and n = 0 and j = 0]
      orbit_every_tick [where i = 1 and w = world0 and c = "Vector 400 400" and d = Part000
          and n = 2 and j = 0]
      orbit_every_tick [where i = 2 and w = world0 and c = "Vector 400 400" and d = GameJs
          and n = 0 and j = 1]
    by (simp add: Let_def add_def mult_def b e m three
          on_circle [of "Vector 400 400", simplified])
qed

section \<open>Launch\<close>

lemma sub_add_cancel_v: "sub (add p q) p = q"
  by (cases q) (simp add: sub_def add_def)

lemma inputEnd_launch:
  assumes "mode w = IDLE" "find (\<lambda>b. type b = TargetStart) (bodies w) = Some earth"
  shows "inputEnd d a e w =
    (updateMouse e w)\<lparr>rocket := Some
       ((newBody (scaleFactor w) (vx (pos earth)) (vy (pos earth)) 1 4 ''#fff'' False Rocket a)
          \<lparr>vel := fst (getLaunchVector (updateMouse e w)),
           fuel := maxFuel (getStats w),
           pos := add (pos earth)
                    (mult (normalize_v (fst (getLaunchVector (updateMouse e w))))
                       (radius earth + 25 * scaleFactor w))\<rparr>),
      mode := FLYING\<rparr>"
  using assms
  by (simp add: inputEnd_def launch_def Let_def updateMouse_def newBody_def)

text \<open>
  C9 as the code has it.  Releasing the pointer in mode IDLE, with a launch body present,
  enters FLYING with a new rocket whose fuel is the maximal fuel of the current upgrade
  level, \<open>100 + 30 * (level - 1)\<close>, whose velocity is the launch vector, and which is
  placed at the launch body's centre plus \<open>radius + 25 * scale\<close> times the normalised
  launch velocity: the offset points along the launch velocity (aim impulse plus the
  velocity of the launch body), and has that length when the launch velocity is not zero.
\<close>

theorem launch_places_rocket:
  assumes "mode w = IDLE" "find (\<lambda>b. type b = TargetStart) (bodies w) = Some earth"
  shows "\<exists>r. inputEnd d a e w = (updateMouse e w)\<lparr>rocket := Some r, mode := FLYING\<rparr>
           \<and> type r = Rocket \<and> age r = 0
           \<and> fuel r = maxFuel (getStats w)
           \<and> fuel r = 100 + (real_of_int (level (upgrades w FuelTrack)) - 1) * 30
           \<and> vel r = fst (getLaunchVector (updateMouse e w))
           \<and> pos r = add (pos earth)
                        (mult (normalize_v (vel r)) (radius earth + 25 * scaleFactor w))
           \<and> (vel r \<noteq> Vector 0 0 \<longrightarrow> 0 \<le> radius earth + 25 * scaleFactor w \<longrightarrow>
                mag (sub (pos r) (pos earth)) = radius earth + 25 * scaleFactor w)"
proof -
  let ?v = "fst (getLaunchVector (updateMouse e w))"
  let ?k = "radius earth + 25 * scaleFactor w"
  let ?r = "(newBody (scaleFactor w) (vx (pos earth)) (vy (pos earth)) 1 4 ''#fff'' False Rocket a)
          \<lparr>vel := ?v, fuel := maxFuel (getStats w),
           pos := add (pos earth) (mult (normalize_v ?v) ?k)\<rparr>"
  have m: "mag (sub (pos ?r) (pos earth)) = ?k" if "?v \<noteq> Vector 0 0" "0 \<le> ?k"
  proof -
    have "mag ?v \<noteq> 0"
      using that(1) by (simp add: mag_zero_iff)
    then have "mag (mult (normalize_v ?v) ?k) = ?k"
      using that(2) by (simp add: mag_mult mag_normalize_v)
    then show ?thesis
      by (simp add: sub_add_cancel_v)
  qed
  have "inputEnd d a e w = (updateMouse e w)\<lparr>rocket := Some ?r, mode := FLYING\<rparr>"
    using inputEnd_launch [OF assms] by simp
  moreover have "type ?r = Rocket" "age ?r = 0" "fuel ?r = maxFuel (getStats w)" "vel ?r = ?v"
    "fuel ?r = 100 + (real_of_int (level (upgrades w FuelTrack)) - 1) * 30"
    "pos ?r = add (pos earth) (mult (normalize_v (vel ?r)) ?k)"
    by (simp_all add: newBody_def getStats_def)
  moreover have "vel ?r \<noteq> Vector 0 0 \<longrightarrow> 0 \<le> ?k \<longrightarrow> mag (sub (pos ?r) (pos earth)) = ?k"
    using m by simp
  ultimately show ?thesis
    by blast
qed

text \<open>In the sample state the pointer is released at \<open>(700, 400)\<close>, to the right of the
  launch body.\<close>

theorem launch_places_rocket_witness:
  "mode w_launch = IDLE
   \<and> find (\<lambda>b. type b = TargetStart) (bodies w_launch) = Some (earth0\<lparr>vel := Vector 0 (88 / 100)\<rparr>)
   \<and> mode (inputEnd Part000 0 (Vector 700 400) w_launch) = FLYING
   \<and> map_option fuel (rocket (inputEnd Part000 0 (Vector 700 400) w_launch)) = Some 100
   \<and> map_option type (rocket (inputEnd Part000 0 (Vector 700 400) w_launch)) = Some Rocket"
proof -
  have h1: "mode w_launch = IDLE"
    by (simp add: w_launch_def world0_def)
  have h2: "find (\<lambda>b. type b = TargetStart) (bodies w_launch)
              = Some (earth0\<lparr>vel := Vector 0 (88 / 100)\<rparr>)"
    by (simp add: w_launch_def world0_def)
  have l: "level (upgrades w_launch FuelTrack) = 1"
    by (simp add: w_launch_def world0_def)
  show ?thesis
    using h1 h2 l launch_places_rocket [OF h1 h2, of Part000 0 "Vector 700 400"]
    by auto
qed

text \<open>
  C9 as stated fails: the offset is not along the aim direction.  With the launch body
  at \<open>(576, 400)\<close> moving at \<open>(0, 0.88)\<close> and the aim at \<open>(700, 400)\<close>, the claimed position
  of the rocket is \<open>(611, 400)\<close>; the rocket is placed above that line.
\<close>

theorem launch_along_aim_counterexample:
  "map_option pos (rocket (inputEnd GameJs 0 (Vector 700 400) w_launch))
     \<noteq> Some (add (pos earth0)
                (mult (normalize_v (sub (Vector 700 400) (pos earth0)))
                   (radius earth0 + 25 * scaleFactor w_launch)))"
proof -
  let ?e = "earth0\<lparr>vel := Vector 0 (88 / 100)\<rparr>"
  let ?w1 = "updateMouse (Vector 700 400) w_launch"
  let ?v = "fst (getLaunchVector ?w1)"
  have f: "find (\<lambda>b. type b = TargetStart) (bodies w_launch) = Some ?e"
    by (simp add: w_launch_def world0_def)
  have f1: "find (\<lambda>b. type b = TargetStart) (bodies ?w1) = Some ?e"
    by (simp add: w_launch_def world0_def updateMouse_def)
  have md: "mode w_launch = IDLE"
    by (simp add: w_launch_def world0_def)
  have v: "vy ?v = 88 / 100"
    using f1
    by (simp add: getLaunchVector_def Let_def updateMouse_def earth0_def newBody_def sub_def
          mag_x_axis normalize_v_def isFinite_def mult_def add_def)
  then have "?v \<noteq> Vector 0 0"
    by auto
  then have pos_mag: "0 < mag ?v"
    using mag_nonneg [of ?v] mag_zero_iff [of ?v] by simp
  have k: "radius ?e + 25 * scaleFactor w_launch = 35" "pos ?e = Vector 576 400"
    by (simp_all add: earth0_def newBody_def w_launch_def world0_def)
  have s1: "vy (add (pos ?e) (mult (normalize_v ?v) 35)) = vy (pos ?e) + vy ?v / mag ?v * 35"
    using pos_mag by (simp add: add_def mult_def normalize_v_def isFinite_def Let_def)
  have s2: "vy (pos ?e) = 400"
    by (simp add: earth0_def newBody_def)
  have "0 < vy ?v / mag ?v * 35"
    unfolding v using pos_mag by simp
  then have actual: "vy (add (pos ?e) (mult (normalize_v ?v) 35)) \<noteq> 400"
    unfolding s1 s2 by linarith
  have claimed: "add (pos earth0) (mult (normalize_v (sub (Vector 700 400) (pos earth0)))
                   (radius earth0 + 25 * scaleFactor w_launch)) = Vector 611 400"
    by (simp add: earth0_def newBody_def w_launch_def world0_def sub_def mag_x_axis
          normalize_v_def isFinite_def mult_def add_def)
  show ?thesis
    unfolding claimed inputEnd_launch [OF md f] k
    using actual k by auto
qed

section \<open>Collisions\<close>

lemma attract_acc: "attract d w body r = r\<lparr>acc := acc (attract d w body r)\<rparr>"
  by (simp add: attract_def applyForce_def Let_def)

lemma attract_scale: "scaleFactor w' = scaleFactor w \<Longrightarrow> attract d w' = attract d w"
  by (intro ext) (simp add: attract_def)

lemma pullAll_scale:
  assumes "scaleFactor w' = scaleFactor w"
  shows "pullAll d w' = pullAll d w"
proof -
  have a: "attract d w' = attract d w"
    using assms by (rule attract_scale)
  show ?thesis
    by (intro ext) (simp only: pullAll_def a)
qed

lemma pullAll_acc: "pullAll d w bs r = r\<lparr>acc := acc (pullAll d w bs r)\<rparr>"
proof (induction bs arbitrary: r)
  case Nil
  show ?case by (simp add: pullAll_def)
next
  case (Cons b bs)
  show ?case
  proof (cases "type b = Rocket")
    case True
    then have "pullAll d w (b # bs) r = pullAll d w bs r"
      by (simp add: pullAll_def)
    then show ?thesis
      using Cons.IH [of r] by simp
  next
    case False
    then have e: "pullAll d w (b # bs) r = pullAll d w bs (attract d w b r)"
      by (simp add: pullAll_def)
    have "pullAll d w bs (attract d w b r)
            = (attract d w b r)\<lparr>acc := acc (pullAll d w bs (attract d w b r))\<rparr>"
      by (rule Cons.IH)
    also have "\<dots> = r\<lparr>acc := acc (pullAll d w bs (attract d w b r))\<rparr>"
      by (subst attract_acc) simp
    finally show ?thesis
      by (simp add: e)
  qed
qed

lemma pullAll_keeps [simp]:
  "pos (pullAll d w bs r) = pos r"
  "age (pullAll d w bs r) = age r"
  "fuel (pullAll d w bs r) = fuel r"
  "type (pullAll d w bs r) = type r"
  "trail (pullAll d w bs r) = trail r"
  by (subst pullAll_acc, simp)+

lemma pullAll_snoc:
  "pullAll d w (bs @ [b]) r
     = (if type b = Rocket then pullAll d w bs r else attract d w b (pullAll d w bs r))"
  by (simp add: pullAll_def)

lemma collides_pos:
  "pos r' = pos r \<Longrightarrow> scaleFactor w' = scaleFactor w \<Longrightarrow> collides d w' body r' = collides d w body r"
  by (simp add: collides_def collisionDist_def)

lemma gravityLoop_miss:
  assumes "rocket w = Some r" "\<forall>p\<in>set pre. type p = Rocket \<or> \<not> collides d w p r"
  shows "gravityLoop d (pre @ rest) w = gravityLoop d rest (w\<lparr>rocket := Some (pullAll d w pre r)\<rparr>)"
  using assms
proof (induction pre arbitrary: w r)
  case Nil
  then have "w\<lparr>rocket := Some r\<rparr> = w"
    using world.surjective [of w] by simp
  then show ?case by (simp add: pullAll_def)
next
  case (Cons p pre)
  show ?case
  proof (cases "type p = Rocket")
    case True
    then show ?thesis
      using Cons.IH [of w r] Cons.prems by (simp add: pullAll_def)
  next
    case False
    let ?r1 = "attract d w p r"
    let ?w1 = "w\<lparr>rocket := Some ?r1\<rparr>"
    have pr: "pos ?r1 = pos r"
      by (subst attract_acc) simp
    have miss: "\<not> collides d w p r"
      using Cons.prems(2) False by simp
    have st: "gravityLoop d ((p # pre) @ rest) w = gravityLoop d (pre @ rest) ?w1"
      using False miss Cons.prems(1) by (simp add: Let_def)
    have "collides d ?w1 q ?r1 = collides d w q r" for q
      by (rule collides_pos) (simp_all add: pr)
    then have "\<forall>q\<in>set pre. type q = Rocket \<or> \<not> collides d ?w1 q ?r1"
      using Cons.prems(2) by simp
    then have ih: "gravityLoop d (pre @ rest) ?w1
                 = gravityLoop d rest (?w1\<lparr>rocket := Some (pullAll d ?w1 pre ?r1)\<rparr>)"
      by (intro Cons.IH) simp_all
    have "pullAll d ?w1 = pullAll d w"
      by (rule pullAll_scale) simp
    then have fin: "?w1\<lparr>rocket := Some (pullAll d ?w1 pre ?r1)\<rparr>
                 = w\<lparr>rocket := Some (pullAll d w (p # pre) r)\<rparr>"
      using False by (simp add: pullAll_def)
    show ?thesis
      unfolding st ih fin by (rule refl)
  qed
qed

lemma gravityLoop_hit:
  assumes "rocket w = Some r" "collides d w body r" "type body \<noteq> Rocket"
  shows "gravityLoop d (body # rest) w
           = (collide d body (attract d w body r) (w\<lparr>rocket := Some (attract d w body r)\<rparr>), False)"
  using assms by (simp add: Let_def)

lemma thrust_rocket:
  assumes "rocket w = Some r"
  shows "\<exists>r1. rocket (thrust w) = Some r1 \<and> pos r1 = pos r \<and> age r1 = age r \<and> type r1 = type r
           \<and> trail r1 = trail r
           \<and> fuel r1 = (if isThrusting w \<and> 0 < fuel r then max 0 (fuel r - 1 / 2) else fuel r)"
  using assms by (auto simp add: thrust_def Let_def applyForce_def)

text \<open>The first body that the rocket touches decides the tick.\<close>

lemma calculateGravity_first_hit:
  assumes "rocket w = Some r" "bodies w = pre @ body # rest"
    and "\<forall>p\<in>set pre. type p = Rocket \<or> \<not> collides d w p r"
    and "collides d w body r" "type body \<noteq> Rocket"
    and "rocket (thrust w) = Some r1"
  shows "calculateGravity d w
           = collide d body (pullAll d w (pre @ [body]) r1)
               ((thrust w)\<lparr>rocket := Some (pullAll d w (pre @ [body]) r1)\<rparr>)"
proof -
  let ?w1 = "thrust w"
  have p1: "pos r1 = pos r"
    using thrust_rocket [OF assms(1)] assms(6) by auto
  have "collides d ?w1 q r1 = collides d w q r" for q
    by (rule collides_pos) (simp_all add: p1)
  then have miss: "\<forall>p\<in>set pre. type p = Rocket \<or> \<not> collides d ?w1 p r1"
    using assms(3) by simp
  let ?r2 = "pullAll d ?w1 pre r1"
  let ?w2 = "?w1\<lparr>rocket := Some ?r2\<rparr>"
  have "collides d ?w2 body ?r2 = collides d w body r"
    by (rule collides_pos) (simp_all add: p1)
  then have hit: "collides d ?w2 body ?r2"
    using assms(4) by simp
  have sc: "pullAll d ?w1 = pullAll d w" "attract d ?w2 = attract d w"
    by (rule pullAll_scale, simp, rule attract_scale, simp)
  let ?r3 = "pullAll d w (pre @ [body]) r1"
  have l2: "gravityLoop d (pre @ body # rest) ?w1 = gravityLoop d (body # rest) ?w2"
    by (rule gravityLoop_miss [OF assms(6) miss])
  have l3: "gravityLoop d (body # rest) ?w2
              = (collide d body (attract d ?w2 body ?r2)
                   (?w2\<lparr>rocket := Some (attract d ?w2 body ?r2)\<rparr>), False)"
    by (rule gravityLoop_hit [OF _ hit assms(5)]) simp
  have r3: "attract d ?w2 body ?r2 = ?r3"
    using assms(5) unfolding sc(2) by (simp add: sc(1) pullAll_snoc)
  have w3: "?w2\<lparr>rocket := Some ?r3\<rparr> = ?w1\<lparr>rocket := Some ?r3\<rparr>"
    by simp
  have l4: "gravityLoop d (pre @ body # rest) ?w1
              = (collide d body ?r3 (?w1\<lparr>rocket := Some ?r3\<rparr>), False)"
    unfolding l2 l3 r3 w3 by (rule refl)
  show ?thesis
    using assms(1,2) by (simp add: calculateGravity_def Let_def l4 del: gravityLoop.simps)
qed

lemma endGame_bodies_upd: "endGame s c (w\<lparr>bodies := bs\<rparr>) = (endGame s c w)\<lparr>bodies := bs\<rparr>"
  by (simp add: endGame_def saveGhostTrail_def Let_def split: option.split)

lemma spawnExplosion_bodies_upd:
  "spawnExplosion a b c (w\<lparr>bodies := bs\<rparr>) = (spawnExplosion a b c w)\<lparr>bodies := bs\<rparr>"
  by (simp add: spawnExplosion_def)

lemma collide_bodies_upd:
  "collide d body r (w\<lparr>bodies := bs\<rparr>) = (collide d body r w)\<lparr>bodies := bs\<rparr>"
  by (cases d) (simp_all add: Let_def endGame_bodies_upd spawnExplosion_bodies_upd
        split: option.split)

lemma thrust_bodies_upd: "thrust (w\<lparr>bodies := bs\<rparr>) = (thrust w)\<lparr>bodies := bs\<rparr>"
  by (simp add: thrust_def Let_def getStats_def split: option.split)

text \<open>Once the rocket touches a body, the bodies that come later in the list play no
  part in the tick.\<close>

lemma calculateGravity_short_circuit:
  assumes "rocket w = Some r" "bodies w = pre @ body # rest"
    and "\<forall>p\<in>set pre. type p = Rocket \<or> \<not> collides d w p r"
    and "collides d w body r" "type body \<noteq> Rocket"
  shows "calculateGravity d (w\<lparr>bodies := pre @ body # rest'\<rparr>)
           = (calculateGravity d w)\<lparr>bodies := pre @ body # rest'\<rparr>"
proof -
  let ?w' = "w\<lparr>bodies := pre @ body # rest'\<rparr>"
  obtain r1 where r1: "rocket (thrust w) = Some r1"
    using thrust_rocket [OF assms(1)] by blast
  have r1': "rocket (thrust ?w') = Some r1"
    using r1 by (simp add: thrust_bodies_upd)
  have c: "collides d ?w' q r = collides d w q r" for q
    by (rule collides_pos) simp_all
  have p: "pullAll d ?w' = pullAll d w"
    by (rule pullAll_scale) simp
  have "calculateGravity d ?w'
          = collide d body (pullAll d ?w' (pre @ [body]) r1)
              ((thrust ?w')\<lparr>rocket := Some (pullAll d ?w' (pre @ [body]) r1)\<rparr>)"
    by (rule calculateGravity_first_hit [where r = r and rest = rest'])
       (simp_all add: assms c r1')
  also have "\<dots> = (collide d body (pullAll d w (pre @ [body]) r1)
              ((thrust w)\<lparr>rocket := Some (pullAll d w (pre @ [body]) r1)\<rparr>))
                \<lparr>bodies := pre @ body # rest'\<rparr>"
  proof -
    have e: "(thrust w)\<lparr>bodies := bs, rocket := x\<rparr> = (thrust w)\<lparr>rocket := x, bodies := bs\<rparr>"
      for bs x
      by simp
    show ?thesis
      unfolding p thrust_bodies_upd e collide_bodies_upd by (rule refl)
  qed
  also have "\<dots> = (calculateGravity d w)\<lparr>bodies := pre @ body # rest'\<rparr>"
    using calculateGravity_first_hit [OF assms r1] by simp
  finally show ?thesis .
qed

text \<open>
  C3. When the first body that the rocket touches in a tick is the launch body, nothing
  happens while the age of the rocket is at most 100: the mode, the coins and the message
  are as before and the rocket is still there, where it was.  From age 101 on the run
  ends as a failure with the message of a crash, the rocket is destroyed and no coins are
  earned.  This holds in both drafts.
\<close>

theorem launch_body_grace:
  assumes "rocket w = Some r" "bodies w = pre @ body # rest"
    and "\<forall>p\<in>set pre. type p = Rocket \<or> \<not> collides d w p r"
    and "collides d w body r" "type body = TargetStart"
  shows "(age r \<le> 100 \<longrightarrow>
            mode (calculateGravity d w) = mode w
            \<and> coins (calculateGravity d w) = coins w
            \<and> msgTitle (calculateGravity d w) = msgTitle w
            \<and> shakeStrength (calculateGravity d w) = shakeStrength w
            \<and> particles (calculateGravity d w) = particles (thrust w)
            \<and> map_option pos (rocket (calculateGravity d w)) = Some (pos r)
            \<and> map_option age (rocket (calculateGravity d w)) = Some (age r))
         \<and> (100 < age r \<longrightarrow>
            mode (calculateGravity d w) = ENDED
            \<and> msgTitle (calculateGravity d w) = ''CRASHED''
            \<and> rocket (calculateGravity d w) = None
            \<and> coins (calculateGravity d w) = coins w)"
proof -
  obtain r1 where r1: "rocket (thrust w) = Some r1" "pos r1 = pos r" "age r1 = age r"
    using thrust_rocket [OF assms(1)] by blast
  have t: "type body \<noteq> Rocket"
    using assms(5) by simp
  note hit = calculateGravity_first_hit [OF assms(1-4) t r1(1)]
  show ?thesis
  proof (cases d)
    case GameJs
    then show ?thesis
      unfolding hit using assms(5) r1
      by (simp add: Let_def endGame_def saveGhostTrail_def spawnExplosion_def)
  next
    case Part000
    then show ?thesis
      unfolding hit using assms(5) r1
      by (simp add: Let_def endGame_def saveGhostTrail_def spawnExplosion_def)
  qed
qed

lemma sample_hit:
  "rocket (flying0 px py n) = Some (rocketAt px py n)"
  "bodies (flying0 px py n) = [sun0, earth0, moon0, mars0]"
  "scaleFactor (flying0 px py n) = 1"
  "thrust (flying0 px py n) = flying0 px py n"
  "mode (flying0 px py n) = FLYING"
  "particles (flying0 px py n) = []"
  "shakeStrength (flying0 px py n) = 0"
  "coins (flying0 px py n) = 0"
  "pos (rocketAt px py n) = Vector px py"
  "age (rocketAt px py n) = n"
  "fuel (rocketAt px py n) = 100"
  by (simp_all add: flying0_def world0_def rocketAt_def newBody_def thrust_def)

lemma sample_collides:
  "collides d (flying0 px 400 n) sun0 (rocketAt px 400 n) \<longleftrightarrow> \<bar>400 - px\<bar> < 30 + COLLISION_PADDING d"
  "collides d (flying0 px 400 n) earth0 (rocketAt px 400 n) \<longleftrightarrow> \<bar>576 - px\<bar> < 10 + COLLISION_PADDING d"
  by (simp_all add: collides_def collisionDist_def sample_hit sun0_def earth0_def newBody_def
        sub_def mag_x_axis)

text \<open>The rocket at \<open>(586, 400)\<close> overlaps the launch body and is far from the sun.  At age
  100 the tick changes nothing; at age 101 it is a crash.\<close>

theorem launch_body_grace_witness:
  "rocket (flying0 586 400 100) = Some (rocketAt 586 400 100)
   \<and> bodies (flying0 586 400 100) = [sun0] @ earth0 # [moon0, mars0]
   \<and> \<not> collides Part000 (flying0 586 400 100) sun0 (rocketAt 586 400 100)
   \<and> collides Part000 (flying0 586 400 100) earth0 (rocketAt 586 400 100)
   \<and> mode (calculateGravity Part000 (flying0 586 400 100)) = FLYING
   \<and> map_option age (rocket (calculateGravity Part000 (flying0 586 400 100))) = Some 100
   \<and> mode (calculateGravity GameJs (flying0 586 400 101)) = ENDED
   \<and> msgTitle (calculateGravity GameJs (flying0 586 400 101)) = ''CRASHED''
   \<and> rocket (calculateGravity GameJs (flying0 586 400 101)) = None"
proof -
  have h: "rocket (flying0 586 400 100) = Some (rocketAt 586 400 100)"
    "bodies (flying0 586 400 100) = [sun0] @ earth0 # [moon0, mars0]"
    "\<forall>p\<in>set [sun0]. type p = Rocket
        \<or> \<not> collides Part000 (flying0 586 400 100) p (rocketAt 586 400 100)"
    "collides Part000 (flying0 586 400 100) earth0 (rocketAt 586 400 100)"
    "type earth0 = TargetStart"
    by (simp_all add: sample_hit sample_collides)
  have g: "rocket (flying0 586 400 101) = Some (rocketAt 586 400 101)"
    "bodies (flying0 586 400 101) = [sun0] @ earth0 # [moon0, mars0]"
    "\<forall>p\<in>set [sun0]. type p = Rocket
        \<or> \<not> collides GameJs (flying0 586 400 101) p (rocketAt 586 400 101)"
    "collides GameJs (flying0 586 400 101) earth0 (rocketAt 586 400 101)"
    "type earth0 = TargetStart"
    by (simp_all add: sample_hit sample_collides)
  show ?thesis
    using h launch_body_grace [OF h] launch_body_grace [OF g]
    by (simp add: sample_hit)
qed

text \<open>The dispatch of a collision in game.js.\<close>

lemma collision_dispatch_gamejs:
  assumes "rocket w = Some r" "bodies w = pre @ body # rest"
    and "\<forall>p\<in>set pre. type p = Rocket \<or> \<not> collides GameJs w p r"
    and "collides GameJs w body r" "type body \<noteq> Rocket"
  shows "(type body = TargetEnd \<longrightarrow>
            mode (calculateGravity GameJs w) = ENDED
            \<and> msgTitle (calculateGravity GameJs w) = ''MARS LANDING!''
            \<and> rocket (calculateGravity GameJs w) = None
            \<and> coins (calculateGravity GameJs w) = coins w + 100
            \<and> particles (calculateGravity GameJs w) = particles (thrust w)
            \<and> shakeStrength (calculateGravity GameJs w) = shakeStrength w)
         \<and> (type body \<noteq> TargetEnd \<longrightarrow> type body \<noteq> TargetStart \<longrightarrow>
            mode (calculateGravity GameJs w) = ENDED
            \<and> msgTitle (calculateGravity GameJs w) = ''CRASHED''
            \<and> rocket (calculateGravity GameJs w) = None
            \<and> coins (calculateGravity GameJs w) = coins w
            \<and> particles (calculateGravity GameJs w)
                = particles (thrust w) @ replicate 30 \<lparr>p_pos = pos r, p_color = color body\<rparr>
            \<and> shakeStrength (calculateGravity GameJs w) = 10)"
proof -
  obtain r1 where r1: "rocket (thrust w) = Some r1" "pos r1 = pos r"
    using thrust_rocket [OF assms(1)] by blast
  have v: "Vector (vx (pos r)) (vy (pos r)) = pos r"
    by simp
  show ?thesis
    unfolding calculateGravity_first_hit [OF assms r1(1)] using r1
    by (simp add: Let_def endGame_def saveGhostTrail_def spawnExplosion_def v
          LANDING_REWARD_def)
qed

text \<open>The same in the other draft: the run ends in the same way, but \<^verbatim>\<open>endGame\<close> has
  set the rocket to null before the explosion is spawned, so none is.\<close>

lemma collision_dispatch_part000:
  assumes "rocket w = Some r" "bodies w = pre @ body # rest"
    and "\<forall>p\<in>set pre. type p = Rocket \<or> \<not> collides Part000 w p r"
    and "collides Part000 w body r" "type body \<noteq> Rocket"
  shows "(type body = TargetEnd \<longrightarrow>
            mode (calculateGravity Part000 w) = ENDED
            \<and> msgTitle (calculateGravity Part000 w) = ''MARS LANDING!''
            \<and> rocket (calculateGravity Part000 w) = None
            \<and> coins (calculateGravity Part000 w) = coins w + 100
            \<and> particles (calculateGravity Part000 w) = particles (thrust w)
            \<and> shakeStrength (calculateGravity Part000 w) = shakeStrength w)
         \<and> (type body \<noteq> TargetEnd \<longrightarrow> type body \<noteq> TargetStart \<longrightarrow>
            mode (calculateGravity Part000 w) = ENDED
            \<and> msgTitle (calculateGravity Part000 w) = ''CRASHED''
            \<and> rocket (calculateGravity Part000 w) = None
            \<and> coins (calculateGravity Part000 w) = coins w
            \<and> particles (calculateGravity Part000 w) = particles (thrust w)
            \<and> shakeStrength (calculateGravity Part000 w) = shakeStrength w)"
proof -
  obtain r1 where r1: "rocket (thrust w) = Some r1" "pos r1 = pos r"
    using thrust_rocket [OF assms(1)] by blast
  show ?thesis
    unfolding calculateGravity_first_hit [OF assms r1(1)] using r1
    by (simp add: Let_def endGame_def saveGhostTrail_def spawnExplosion_def
          LANDING_REWARD_def)
qed

text \<open>
  C1 at a failing input of the second draft.  A rocket at \<open>(430, 400)\<close> touches the sun
  (centre \<open>(400, 400)\<close>, radius 30, padding 4).  The run ends as a crash and the rocket is
  destroyed, but no particle is spawned and the screen does not shake.
\<close>

theorem part000_crash_without_explosion:
  "mode (calculateGravity Part000 (flying0 430 400 200)) = ENDED
   \<and> msgTitle (calculateGravity Part000 (flying0 430 400 200)) = ''CRASHED''
   \<and> rocket (calculateGravity Part000 (flying0 430 400 200)) = None
   \<and> particles (calculateGravity Part000 (flying0 430 400 200)) = []
   \<and> shakeStrength (calculateGravity Part000 (flying0 430 400 200)) = 0"
proof -
  have h: "rocket (flying0 430 400 200) = Some (rocketAt 430 400 200)"
    "bodies (flying0 430 400 200) = [] @ sun0 # [earth0, moon0, mars0]"
    "\<forall>p\<in>set []. type p = Rocket \<or> \<not> collides Part000 (flying0 430 400 200) p (rocketAt 430 400 200)"
    "collides Part000 (flying0 430 400 200) sun0 (rocketAt 430 400 200)"
    "type sun0 \<noteq> Rocket"
    by (simp_all add: sample_hit sample_collides)
  show ?thesis
    using collision_dispatch_part000 [OF h] by (simp add: sample_hit)
qed

text \<open>In game.js the same tick spawns the thirty particles of the explosion where the
  rocket was.\<close>

lemma gamejs_crash_with_explosion:
  "mode (calculateGravity GameJs (flying0 430 400 200)) = ENDED
   \<and> msgTitle (calculateGravity GameJs (flying0 430 400 200)) = ''CRASHED''
   \<and> rocket (calculateGravity GameJs (flying0 430 400 200)) = None
   \<and> particles (calculateGravity GameJs (flying0 430 400 200))
       = replicate 30 \<lparr>p_pos = Vector 430 400, p_color = ''#ffd700''\<rparr>
   \<and> shakeStrength (calculateGravity GameJs (flying0 430 400 200)) = 10"
proof -
  have h: "rocket (flying0 430 400 200) = Some (rocketAt 430 400 200)"
    "bodies (flying0 430 400 200) = [] @ sun0 # [earth0, moon0, mars0]"
    "\<forall>p\<in>set []. type p = Rocket \<or> \<not> collides GameJs (flying0 430 400 200) p (rocketAt 430 400 200)"
    "collides GameJs (flying0 430 400 200) sun0 (rocketAt 430 400 200)"
    "type sun0 \<noteq> Rocket"
    by (simp_all add: sample_hit sample_collides)
  have c: "color sun0 = ''#ffd700''"
    by (simp add: sun0_def newBody_def)
  show ?thesis
    using collision_dispatch_gamejs [OF h] by (simp add: sample_hit c)
qed

section \<open>Fuel\<close>

lemma collide_rocket:
  "rocket (collide d body r1 w) = None \<or> collide d body r1 w = w"
  by (cases d) (simp_all add: Let_def)

lemma gravityLoop_rocket:
  assumes "rocket w = Some r"
  shows "rocket (fst (gravityLoop d bs w)) = None
         \<or> (\<exists>a. rocket (fst (gravityLoop d bs w)) = Some (r\<lparr>acc := a\<rparr>))"
  using assms
proof (induction bs arbitrary: w r)
  case Nil
  have "r = r\<lparr>acc := acc r\<rparr>"
    by simp
  then show ?case
    using Nil by (metis fst_conv gravityLoop.simps(1))
next
  case (Cons b bs)
  show ?case
  proof (cases "type b = Rocket")
    case True
    then show ?thesis
      using Cons.IH [OF Cons.prems] by simp
  next
    case False
    let ?r1 = "attract d w b r"
    let ?w1 = "w\<lparr>rocket := Some ?r1\<rparr>"
    have r1: "?r1 = r\<lparr>acc := acc ?r1\<rparr>"
      by (rule attract_acc)
    show ?thesis
    proof (cases "collides d w b r")
      case True
      then have "fst (gravityLoop d (b # bs) w) = collide d b ?r1 ?w1"
        using False Cons.prems by (simp add: Let_def)
      moreover have "rocket ?w1 = Some (r\<lparr>acc := acc ?r1\<rparr>)"
        using r1 by simp
      ultimately show ?thesis
        using collide_rocket [of d b ?r1 ?w1] by metis
    next
      case miss: False
      then have e: "gravityLoop d (b # bs) w = gravityLoop d bs ?w1"
        using False Cons.prems by (simp add: Let_def)
      have "rocket ?w1 = Some ?r1"
        by simp
      from Cons.IH [OF this]
      have "rocket (fst (gravityLoop d bs ?w1)) = None
            \<or> (\<exists>a. rocket (fst (gravityLoop d bs ?w1)) = Some (?r1\<lparr>acc := a\<rparr>))" .
      moreover have "?r1\<lparr>acc := a\<rparr> = r\<lparr>acc := a\<rparr>" for a
        by (subst r1) simp
      ultimately show ?thesis
        unfolding e by simp
    qed
  qed
qed


lemma thrust_fuel:
  assumes "rocket w = Some r"
  shows "\<exists>a. rocket (thrust w)
           = Some (r\<lparr>acc := a,
                fuel := (if isThrusting w \<and> 0 < fuel r then max 0 (fuel r - 1 / 2)
                         else fuel r)\<rparr>)"
proof (cases "isThrusting w \<and> 0 < fuel r")
  case True
  let ?a = "acc (applyForce (mult (normalize_v (sub (mouse w) (pos r)))
                               (thrustPower (getStats w))) r)"
  have "rocket (thrust w) = Some (r\<lparr>acc := ?a, fuel := max 0 (fuel r - 1 / 2)\<rparr>)"
    using assms True by (simp add: thrust_def Let_def applyForce_def max_def)
  then show ?thesis
    using True by auto
next
  case False
  then have "thrust w = w"
    using assms by (cases "isThrusting w") (simp_all add: thrust_def)
  then have "rocket (thrust w) = Some (r\<lparr>acc := acc r, fuel := fuel r\<rparr>)"
    using assms by simp
  then show ?thesis
    using False by (intro exI [of _ "acc r"]) auto
qed

lemma calculateGravity_rocket:
  assumes "rocket w = Some r"
  shows "rocket (calculateGravity d w) = None
         \<or> (\<exists>a. rocket (calculateGravity d w)
                 = Some (r\<lparr>acc := a,
                      fuel := (if isThrusting w \<and> 0 < fuel r \<and> bodies w \<noteq> []
                               then max 0 (fuel r - 1 / 2) else fuel r)\<rparr>))"
proof (cases "bodies w = []")
  case True
  have "calculateGravity d w = w"
    using True assms by (simp add: calculateGravity_def)
  then have "rocket (calculateGravity d w) = Some (r\<lparr>acc := acc r, fuel := fuel r\<rparr>)"
    using assms by simp
  then show ?thesis
    using True by (intro disjI2 exI [of _ "acc r"]) simp
next
  case False
  let ?f = "if isThrusting w \<and> 0 < fuel r then max 0 (fuel r - 1 / 2) else fuel r"
  obtain a1 where t: "rocket (thrust w) = Some (r\<lparr>acc := a1, fuel := ?f\<rparr>)"
    using thrust_fuel [OF assms] by blast
  have cg: "rocket (calculateGravity d w) = rocket (fst (gravityLoop d (bodies w) (thrust w)))"
    using assms False by (simp add: calculateGravity_def Let_def)
  have e: "r\<lparr>acc := a1, fuel := ?f\<rparr>\<lparr>acc := a\<rparr> = r\<lparr>acc := a, fuel := ?f\<rparr>" for a
    by simp
  have f: "(if isThrusting w \<and> 0 < fuel r \<and> bodies w \<noteq> [] then max 0 (fuel r - 1 / 2)
            else fuel r) = ?f"
    using False by simp
  show ?thesis
    unfolding cg f using gravityLoop_rocket [OF t, of d "bodies w"] unfolding e by blast
qed

lemma calculateGravity_no_rocket: "rocket w = None \<Longrightarrow> calculateGravity d w = w"
  by (simp add: calculateGravity_def)

lemma updateRocket_rocket:
  "rocket (updateRocket w) = None \<or> rocket (updateRocket w) = map_option (update w) (rocket w)"
  by (simp add: updateRocket_def Let_def split: option.split)

text \<open>One tick: the rocket is gone after it, or its fuel is what the thrust block made
  of it.\<close>

lemma physicsStep_fuel:
  assumes "rocket w = Some r" "rocket (physicsStep d w) = Some r'"
  shows "fuel r' = (if isThrusting w \<and> 0 < fuel r \<and> bodies w \<noteq> []
                    then max 0 (fuel r - 1 / 2) else fuel r)"
proof -
  let ?g = "updateBodies (calculateGravity d w)"
  have "rocket (updateRocket ?g) = Some r'"
    using assms(2) by (simp add: physicsStep_def)
  then have "map_option (update ?g) (rocket (calculateGravity d w)) = Some r'"
    using updateRocket_rocket [of ?g] by simp
  then obtain r1 where r1: "rocket (calculateGravity d w) = Some r1" "r' = update ?g r1"
    by auto
  then show ?thesis
    using calculateGravity_rocket [OF assms(1), of d] by auto
qed

lemma physicsStep_no_rocket: "rocket w = None \<Longrightarrow> rocket (physicsStep d w) = None"
  by (simp add: physicsStep_def calculateGravity_no_rocket updateRocket_def)

lemma gravityLoop_mode:
  "mode (fst (gravityLoop d bs w)) = mode w \<or> mode (fst (gravityLoop d bs w)) = ENDED"
proof (induction bs arbitrary: w)
  case Nil
  show ?case by simp
next
  case (Cons b bs)
  have c: "mode (collide d b r1 w1) = mode w1 \<or> mode (collide d b r1 w1) = ENDED" for r1 w1
    by (cases d) (simp_all add: Let_def)
  show ?case
    using Cons [of "w\<lparr>rocket := Some (attract d w b (the (rocket w)))\<rparr>"] Cons [of w] c
    by (auto simp add: Let_def split: option.split draft.split)
qed

lemma physicsStep_mode: "mode (physicsStep d w) = mode w \<or> mode (physicsStep d w) = ENDED"
proof -
  have "mode (calculateGravity d w) = mode w \<or> mode (calculateGravity d w) = ENDED"
    using gravityLoop_mode [of d "bodies (thrust w)" "thrust w"]
    by (auto simp add: calculateGravity_def Let_def split: option.split)
  moreover have "mode (updateRocket w1) = mode w1 \<or> mode (updateRocket w1) = ENDED" for w1
    by (simp add: updateRocket_def Let_def split: option.split)
  ultimately show ?thesis
    unfolding physicsStep_def by (metis updateBodies_keeps(6))
qed

text \<open>During a flight no event brings the mode back to IDLE or the fuel up.\<close>

lemma step_fuel:
  assumes "mode w \<noteq> IDLE"
    and "rocket w = None \<or> (\<exists>r1. rocket w = Some r1 \<and> 0 \<le> fuel r1 \<and> fuel r1 \<le> k)"
  shows "mode (step d ev w) \<noteq> IDLE
         \<and> (rocket (step d ev w) = None
            \<or> (\<exists>r1. rocket (step d ev w) = Some r1 \<and> 0 \<le> fuel r1 \<and> fuel r1 \<le> k))"
proof (cases ev)
  case Tick
  have m: "mode (physicsStep d w) \<noteq> IDLE"
    using physicsStep_mode [of d w] assms(1) by auto
  have "rocket (physicsStep d w) = None
        \<or> (\<exists>r1. rocket (physicsStep d w) = Some r1 \<and> 0 \<le> fuel r1 \<and> fuel r1 \<le> k)"
  proof (cases "rocket (physicsStep d w)")
    case None
    then show ?thesis by simp
  next
    case (Some r')
    then obtain r1 where r1: "rocket w = Some r1" "0 \<le> fuel r1" "fuel r1 \<le> k"
      using assms(2) physicsStep_no_rocket [of w d] by auto
    have "0 \<le> fuel r' \<and> fuel r' \<le> fuel r1"
      using physicsStep_fuel [OF r1(1) Some] r1(2) by (auto simp add: max_def)
    then show ?thesis
      using Some r1(3) by simp
  qed
  then show ?thesis
    using Tick m by simp
next
  case (InputStart e)
  then show ?thesis
    using assms by (simp add: inputStart_def updateMouse_def)
next
  case (InputEnd a e)
  then show ?thesis
    using assms by (simp add: inputEnd_def)
next
  case (MouseMove e)
  then show ?thesis
    using assms by (simp add: updateMouse_def)
qed

lemma run_fuel:
  assumes "mode w \<noteq> IDLE"
    and "rocket w = None \<or> (\<exists>r1. rocket w = Some r1 \<and> 0 \<le> fuel r1 \<and> fuel r1 \<le> k)"
  shows "rocket (run d evs w) = None
         \<or> (\<exists>r1. rocket (run d evs w) = Some r1 \<and> 0 \<le> fuel r1 \<and> fuel r1 \<le> k)"
  using assms
proof (induction evs arbitrary: w)
  case Nil
  then show ?case by (simp add: run_def)
next
  case (Cons ev evs)
  have "run d (ev # evs) w = run d evs (step d ev w)"
    by (simp add: run_def)
  then show ?case
    using Cons.IH [of "step d ev w"] step_fuel [OF Cons.prems, of d ev] by simp
qed

lemma thrust_empty_tank:
  assumes "rocket w = Some r" "fuel r \<le> 0"
  shows "thrust w = w"
  using assms by (simp add: thrust_def)

text \<open>
  C6. During a flight, whatever ticks and pointer events follow, the fuel of the rocket
  never rises and never becomes negative.  A tick leaves it as it is, except when the
  thrust signal is on and the fuel is positive (and there are bodies): then it goes down
  by 0.5, floored at 0.  With an empty tank the thrust block of \<^verbatim>\<open>calculateGravity\<close> does
  nothing at all: no force is applied.
\<close>

theorem fuel_never_rises:
  assumes "mode w = FLYING" "rocket w = Some r" "0 \<le> fuel r"
  shows "(rocket (run d evs w) = Some r' \<longrightarrow> 0 \<le> fuel r' \<and> fuel r' \<le> fuel r)
         \<and> (rocket (physicsStep d w) = Some r'' \<longrightarrow>
              fuel r'' = (if isThrusting w \<and> 0 < fuel r \<and> bodies w \<noteq> []
                          then max 0 (fuel r - 1 / 2) else fuel r))
         \<and> (fuel r = 0 \<longrightarrow> thrust w = w)"
proof (intro conjI impI)
  assume "rocket (run d evs w) = Some r'"
  moreover have "mode w \<noteq> IDLE"
    using assms(1) by simp
  moreover have "rocket w = None \<or> (\<exists>r1. rocket w = Some r1 \<and> 0 \<le> fuel r1 \<and> fuel r1 \<le> fuel r)"
    using assms(2,3) by simp
  ultimately show "0 \<le> fuel r'" "fuel r' \<le> fuel r"
    using run_fuel [of w "fuel r" d evs] by auto
next
  assume "rocket (physicsStep d w) = Some r''"
  then show "fuel r'' = (if isThrusting w \<and> 0 < fuel r \<and> bodies w \<noteq> []
                          then max 0 (fuel r - 1 / 2) else fuel r)"
    by (rule physicsStep_fuel [OF assms(2)])
next
  assume "fuel r = 0"
  then show "thrust w = w"
    using thrust_empty_tank [OF assms(2)] by simp
qed

text \<open>A tick in which the rocket touches nothing, worked out on the sample state.\<close>

lemma calculateGravity_all_miss:
  assumes "rocket w = Some r" "bodies w \<noteq> []"
    and "\<forall>p\<in>set (bodies w). type p = Rocket \<or> \<not> collides d w p r"
    and "rocket (thrust w) = Some r1"
  shows "calculateGravity d w
           = trackClosest ((thrust w)\<lparr>rocket := Some (pullAll d w (bodies w) r1)\<rparr>)"
proof -
  have p1: "pos r1 = pos r"
    using thrust_rocket [OF assms(1)] assms(4) by auto
  have "collides d (thrust w) q r1 = collides d w q r" for q
    by (rule collides_pos) (simp_all add: p1)
  then have miss: "\<forall>p\<in>set (bodies w). type p = Rocket \<or> \<not> collides d (thrust w) p r1"
    using assms(3) by simp
  have sc: "pullAll d (thrust w) = pullAll d w"
    by (rule pullAll_scale) simp
  have "gravityLoop d (bodies w @ []) (thrust w)
          = gravityLoop d [] ((thrust w)\<lparr>rocket := Some (pullAll d (thrust w) (bodies w) r1)\<rparr>)"
    by (rule gravityLoop_miss [OF assms(4) miss])
  then have "gravityLoop d (bodies w) (thrust w)
          = ((thrust w)\<lparr>rocket := Some (pullAll d w (bodies w) r1)\<rparr>, True)"
    by (simp add: sc)
  then show ?thesis
    using assms(1,2) by (simp add: calculateGravity_def Let_def)
qed

lemma update_free:
  assumes "orbitCenter b = None" "parentBody b = None" "\<not> oscillate b" "\<not> isStatic b"
  shows "pos (update w b) = add (pos b) (add (vel b) (acc b))"
  using assms
  by (simp add: update_def update_motion_def update_rocket_def update_trail_def parentOf_def
        Let_def)

lemma sample_collides_axis:
  assumes "scaleFactor w = 1" "pos r = Vector px 400"
  shows "collides d w sun0 r \<longleftrightarrow> \<bar>400 - px\<bar> < 30 + COLLISION_PADDING d"
    and "collides d w earth0 r \<longleftrightarrow> \<bar>576 - px\<bar> < 10 + COLLISION_PADDING d"
    and "collides d w moon0 r \<longleftrightarrow> \<bar>601 - px\<bar> < 3 + COLLISION_PADDING d"
    and "collides d w mars0 r \<longleftrightarrow> \<bar>120 - px\<bar> < 9 + COLLISION_PADDING d"
  using assms
  by (simp_all add: collides_def collisionDist_def sun0_def earth0_def moon0_def mars0_def
        newBody_def sub_def mag_x_axis)

text \<open>The pull of a body that lies on the same horizontal line as the rocket is
  horizontal, and bounded.\<close>

lemma attract_axis:
  assumes "vy (pos body) = vy (pos r)" "0 < scaleFactor w" "mass r = 1" "0 \<le> mass body"
  shows "vy (acc (attract d w body r)) = vy (acc r)"
    and "\<bar>vx (acc (attract d w body r)) - vx (acc r)\<bar>
           \<le> G_BASE d * mass body * SUN_BOOST d / (100 * scaleFactor w)"
proof -
  let ?dx = "vx (pos body) - vx (pos r)"
  let ?c = "max \<bar>?dx\<bar> (10 * scaleFactor w)"
  let ?s = "G_BASE d * scaleFactor w * mass body / (?c * ?c)"
  let ?s' = "if type body = Sun then ?s * SUN_BOOST d else ?s"
  have f: "sub (pos body) (pos r) = Vector ?dx 0"
    using assms(1) by (simp add: sub_def)
  have n: "normalize_v (Vector ?dx 0) = Vector (if ?dx = 0 then 0 else ?dx / \<bar>?dx\<bar>) 0"
    by (simp add: normalize_v_def mag_x_axis isFinite_def)
  have a: "acc (attract d w body r)
             = add (acc r) (Vector ((if ?dx = 0 then 0 else ?dx / \<bar>?dx\<bar>) * ?s') 0)"
    using assms(3)
    by (simp add: attract_def f n mag_x_axis Let_def applyForce_def mult_def
          COLLISION_MIN_DIST_def)
  show "vy (acc (attract d w body r)) = vy (acc r)"
    by (simp add: a add_def)
  have g: "0 \<le> G_BASE d" "1 \<le> SUN_BOOST d"
    by (cases d; simp)+
  have c: "10 * scaleFactor w \<le> ?c" "0 < ?c"
    using assms(2) by simp_all
  have "?c * ?c \<ge> (10 * scaleFactor w) * (10 * scaleFactor w)"
    using c assms(2) by (intro mult_mono) simp_all
  then have "?s \<le> G_BASE d * scaleFactor w * mass body / ((10 * scaleFactor w) * (10 * scaleFactor w))"
    using assms(2,4) g(1) by (intro divide_left_mono) simp_all
  also have "\<dots> = G_BASE d * mass body / (100 * scaleFactor w)"
    using assms(2) by simp
  finally have s: "?s \<le> G_BASE d * mass body / (100 * scaleFactor w)" .
  have s0: "0 \<le> ?s"
    using assms(2,4) g(1) by simp
  have "?s * 1 \<le> ?s * SUN_BOOST d"
    using s0 g(2) by (intro mult_left_mono)
  then have "?s' \<le> ?s * SUN_BOOST d"
    by simp
  also have "\<dots> \<le> G_BASE d * mass body / (100 * scaleFactor w) * SUN_BOOST d"
    using s g(2) by (intro mult_right_mono) simp_all
  finally have s': "?s' \<le> G_BASE d * mass body * SUN_BOOST d / (100 * scaleFactor w)"
    by simp
  have "0 \<le> ?s * SUN_BOOST d"
    using s0 g(2) by (intro mult_nonneg_nonneg) simp_all
  then have s'0: "0 \<le> ?s'"
    using s0 by simp
  define u where "u = (if ?dx = 0 then 0 else ?dx / \<bar>?dx\<bar>)"
  define t where "t = ?s'"
  have "\<bar>u\<bar> \<le> 1"
    by (simp add: u_def)
  then have "\<bar>u\<bar> * t \<le> 1 * t"
    using s'0 unfolding t_def by (intro mult_right_mono)
  then have "\<bar>u * t\<bar> \<le> t"
    using s'0 unfolding t_def by (simp add: abs_mult)
  moreover have "vx (acc (attract d w body r)) - vx (acc r) = u * t"
    unfolding u_def t_def by (simp add: a add_def)
  ultimately show "\<bar>vx (acc (attract d w body r)) - vx (acc r)\<bar>
           \<le> G_BASE d * mass body * SUN_BOOST d / (100 * scaleFactor w)"
    using s' unfolding t_def by linarith
qed


lemma abs_chain: "\<bar>x - y\<bar> \<le> s \<Longrightarrow> \<bar>y - z\<bar> \<le> b \<Longrightarrow> \<bar>x - z\<bar> \<le> b + (s::real)"
  by linarith

lemma pullAll_axis:
  assumes "\<forall>b\<in>set bs. vy (pos b) = vy (pos r) \<and> 0 \<le> mass b"
    and "0 < scaleFactor w" "mass r = 1"
  shows "vy (acc (pullAll d w bs r)) = vy (acc r)
         \<and> \<bar>vx (acc (pullAll d w bs r)) - vx (acc r)\<bar>
             \<le> (\<Sum>b\<leftarrow>bs. G_BASE d * mass b * SUN_BOOST d / (100 * scaleFactor w))"
  using assms
proof (induction bs arbitrary: r)
  case Nil
  show ?case by (simp add: pullAll_def)
next
  case (Cons b bs)
  have g: "0 \<le> G_BASE d * mass b * SUN_BOOST d / (100 * scaleFactor w)"
    using Cons.prems by (cases d) simp_all
  show ?case
  proof (cases "type b = Rocket")
    case True
    then have "pullAll d w (b # bs) r = pullAll d w bs r"
      by (simp add: pullAll_def)
    then show ?thesis
      using Cons.IH [of r] Cons.prems g by simp
  next
    case False
    let ?r1 = "attract d w b r"
    have e: "pullAll d w (b # bs) r = pullAll d w bs ?r1"
      using False by (simp add: pullAll_def)
    have k: "pos ?r1 = pos r" "mass ?r1 = mass r"
      by (subst attract_acc, simp)+
    have a: "vy (acc ?r1) = vy (acc r)"
      "\<bar>vx (acc ?r1) - vx (acc r)\<bar> \<le> G_BASE d * mass b * SUN_BOOST d / (100 * scaleFactor w)"
      using attract_axis [of b r w d] Cons.prems by simp_all
    have "vy (acc (pullAll d w bs ?r1)) = vy (acc ?r1)
          \<and> \<bar>vx (acc (pullAll d w bs ?r1)) - vx (acc ?r1)\<bar>
              \<le> (\<Sum>b\<leftarrow>bs. G_BASE d * mass b * SUN_BOOST d / (100 * scaleFactor w))"
      using Cons.prems by (intro Cons.IH) (simp_all add: k)
    then show ?thesis
      unfolding e using a abs_chain [of "vx (acc (pullAll d w bs ?r1))" "vx (acc ?r1)" _ "vx (acc r)"]
      by simp
  qed
qed

lemma sample_masses:
  "mass sun0 = 5000" "mass earth0 = 100" "mass moon0 = 10" "mass mars0 = 80"
  "vy (pos sun0) = 400" "vy (pos earth0) = 400" "vy (pos moon0) = 400" "vy (pos mars0) = 400"
  by (simp_all add: sun0_def earth0_def moon0_def mars0_def newBody_def)

text \<open>The rocket of the sample state, at rest at \<open>(700, 400)\<close> with the thrust on towards
  \<open>(800, 400)\<close>, survives a tick with half a unit of fuel less.\<close>

lemma sample_tick:
  "\<exists>r'. rocket (physicsStep d ((flying0 700 400 5)\<lparr>isThrusting := True, mouse := Vector 800 400\<rparr>))
          = Some r' \<and> fuel r' = 199 / 2"
proof -
  let ?w = "(flying0 700 400 5)\<lparr>isThrusting := True, mouse := Vector 800 400\<rparr>"
  let ?r0 = "rocketAt 700 400 5"
  let ?r1 = "?r0\<lparr>acc := Vector (1 / 10) 0, fuel := 199 / 2\<rparr>"
  have w: "rocket ?w = Some ?r0" "bodies ?w = [sun0, earth0, moon0, mars0]" "scaleFactor ?w = 1"
    "cx ?w = 400" "cy ?w = 400" "width ?w = 800" "height ?w = 800"
    by (simp_all add: flying0_def world0_def)
  have r0: "pos ?r0 = Vector 700 400" "vel ?r0 = Vector 0 0" "mass ?r0 = 1"
    "orbitCenter ?r0 = None" "parentBody ?r0 = None" "\<not> oscillate ?r0" "\<not> isStatic ?r0"
    by (simp_all add: rocketAt_def newBody_def)
  have t: "rocket (thrust ?w) = Some ?r1"
    by (simp add: thrust_def flying0_def world0_def rocketAt_def newBody_def Let_def sub_def
          normalize_v_def mag_x_axis isFinite_def mult_def getStats_def applyForce_def add_def)
  have miss: "\<forall>p\<in>set (bodies ?w). type p = Rocket \<or> \<not> collides d ?w p ?r0"
    using sample_collides_axis [of ?w ?r0 700 d] w r0 by (cases d) simp_all
  let ?r2 = "pullAll d ?w (bodies ?w) ?r1"
  have cg: "calculateGravity d ?w = trackClosest ((thrust ?w)\<lparr>rocket := Some ?r2\<rparr>)"
    by (rule calculateGravity_all_miss [OF w(1) _ miss t]) (simp add: w)
  have r2: "?r2 = ?r1\<lparr>acc := acc ?r2\<rparr>"
    by (rule pullAll_acc)
  have k: "pos ?r2 = Vector 700 400" "vel ?r2 = Vector 0 0" "fuel ?r2 = 199 / 2"
    "orbitCenter ?r2 = None" "parentBody ?r2 = None" "\<not> oscillate ?r2" "\<not> isStatic ?r2"
    by (subst r2, simp add: r0)+
  have "vy (acc ?r2) = vy (acc ?r1)
        \<and> \<bar>vx (acc ?r2) - vx (acc ?r1)\<bar>
            \<le> (\<Sum>b\<leftarrow>bodies ?w. G_BASE d * mass b * SUN_BOOST d / (100 * scaleFactor ?w))"
    by (rule pullAll_axis) (simp_all add: w r0 sample_masses)
  then have a: "vy (acc ?r2) = 0" "\<bar>vx (acc ?r2) - 1 / 10\<bar> \<le> 28"
    by (cases d; simp add: w sample_masses)+
  let ?g = "updateBodies (calculateGravity d ?w)"
  have g: "rocket ?g = Some ?r2" "cx ?g = 400" "cy ?g = 400" "width ?g = 800" "height ?g = 800"
    by (simp_all add: cg w)
  have p: "pos (update ?g ?r2) = Vector (700 + vx (acc ?r2)) 400"
    using update_free [of ?r2 ?g] k a(1) by (simp add: add_def)
  have "mag (Vector (vx (pos (update ?g ?r2)) - cx ?g) (vy (pos (update ?g ?r2)) - cy ?g))
          = \<bar>300 + vx (acc ?r2)\<bar>"
    unfolding p g(2,3) by (simp add: mag_x_axis)
  moreover have "\<bar>300 + vx (acc ?r2)\<bar> \<le> 1600"
    using a(2) by linarith
  ultimately have "\<not> mag (Vector (vx (pos (update ?g ?r2)) - cx ?g)
                          (vy (pos (update ?g ?r2)) - cy ?g)) > max (width ?g) (height ?g) * 2"
    unfolding g(4,5) by simp
  then have "rocket (updateRocket ?g) = Some (update ?g ?r2)"
    unfolding updateRocket_def g(1) by (simp add: Let_def)
  then show ?thesis
    using k(3) by (simp add: physicsStep_def)
qed

text \<open>The thrust is switched on and one tick passes: the fuel goes from 100 to 99.5.  With
  an empty tank the thrust block changes nothing.\<close>

theorem fuel_never_rises_witness:
  "mode (flying0 700 400 5) = FLYING
   \<and> rocket (flying0 700 400 5) = Some (rocketAt 700 400 5)
   \<and> 0 \<le> fuel (rocketAt 700 400 5)
   \<and> map_option fuel
        (rocket (run GameJs [InputStart (Vector 800 400), Tick] (flying0 700 400 5)))
       = Some (199 / 2)
   \<and> thrust ((flying0 700 400 5)\<lparr>rocket := Some ((rocketAt 700 400 5)\<lparr>fuel := 0\<rparr>),
                                     isThrusting := True\<rparr>)
       = (flying0 700 400 5)\<lparr>rocket := Some ((rocketAt 700 400 5)\<lparr>fuel := 0\<rparr>),
                               isThrusting := True\<rparr>"
proof -
  let ?w = "flying0 700 400 5"
  let ?wt = "?w\<lparr>isThrusting := True, mouse := Vector 800 400\<rparr>"
  let ?we = "?w\<lparr>rocket := Some ((rocketAt 700 400 5)\<lparr>fuel := 0\<rparr>), isThrusting := True\<rparr>"
  obtain r' where r': "rocket (physicsStep GameJs ?wt) = Some r'"
    using sample_tick [of GameJs] by blast
  have run: "run GameJs [InputStart (Vector 800 400), Tick] ?w = physicsStep GameJs ?wt"
    by (simp add: run_def inputStart_def updateMouse_def sample_hit)
  have h: "mode ?w = FLYING" "rocket ?w = Some (rocketAt 700 400 5)"
    "0 \<le> fuel (rocketAt 700 400 5)"
    by (simp_all add: sample_hit)
  have h1: "mode ?wt = FLYING" "rocket ?wt = Some (rocketAt 700 400 5)"
    "isThrusting ?wt" "bodies ?wt \<noteq> []"
    by (simp_all add: sample_hit)
  have h0: "mode ?we = FLYING" "rocket ?we = Some ((rocketAt 700 400 5)\<lparr>fuel := 0\<rparr>)"
    "0 \<le> fuel ((rocketAt 700 400 5)\<lparr>fuel := 0\<rparr>)"
    by (simp_all add: sample_hit)
  have f: "fuel (rocketAt 700 400 5) = 100"
    by (simp add: sample_hit)
  have "fuel r' = (if isThrusting ?wt \<and> 0 < fuel (rocketAt 700 400 5) \<and> bodies ?wt \<noteq> []
                   then max 0 (fuel (rocketAt 700 400 5) - 1 / 2)
                   else fuel (rocketAt 700 400 5))"
    using fuel_never_rises [OF h1(1,2) h(3), of GameJs "[]" r' r'] r' by blast
  then have v: "fuel r' = 199 / 2"
    unfolding f using h1(3,4) by simp
  have b: "0 \<le> fuel r' \<and> fuel r' \<le> fuel (rocketAt 700 400 5)"
    using fuel_never_rises [OF h, of GameJs "[InputStart (Vector 800 400), Tick]" r' r'] r'
    unfolding run by blast
  have z: "fuel ((rocketAt 700 400 5)\<lparr>fuel := 0\<rparr>) = 0"
    by simp
  have e: "thrust ?we = ?we"
    using fuel_never_rises [OF h0, of GameJs "[]" r' r'] z by blast
  have m: "map_option fuel
          (rocket (run GameJs [InputStart (Vector 800 400), Tick] (flying0 700 400 5)))
        = Some (199 / 2)"
    unfolding run r' using v by simp
  show ?thesis
    by (intro conjI h m e)
qed

section \<open>The frame loop and the pause\<close>

lemma pass_keeps [simp]:
  "accumulator (pass d w) = accumulator w - FIXED_STEP"
  "lastTimestamp (pass d w) = lastTimestamp w"
  "frameCount (pass d w) = frameCount w"
  "bodies (pass d w) = bodies (physicsStep d w)"
  by (simp_all add: pass_def Let_def)

lemma funpow_pass_accumulator:
  "accumulator ((pass d ^^ n) w) = accumulator w - real n * FIXED_STEP"
  by (induction n) (simp_all add: algebra_simps)

lemma funpow_pass_orbit:
  assumes "i < length (bodies w)" "orbitCenter (bodies w ! i) = Some c"
  shows "length (bodies ((pass d ^^ n) w)) = length (bodies w)
         \<and> orbitCenter (bodies ((pass d ^^ n) w) ! i) = Some c
         \<and> orbitSpeed (bodies ((pass d ^^ n) w) ! i) = orbitSpeed (bodies w ! i)
         \<and> orbitAngle (bodies ((pass d ^^ n) w) ! i)
             = orbitAngle (bodies w ! i) + real n * orbitSpeed (bodies w ! i)"
proof (induction n)
  case 0
  show ?case using assms by simp
next
  case (Suc n)
  let ?w = "(pass d ^^ n) w"
  from Suc assms have i: "i < length (bodies ?w)" and c: "orbitCenter (bodies ?w ! i) = Some c"
    by simp_all
  show ?case
    using Suc physicsStep_orbit(1,3,4) [where d = d, OF i c] by (simp add: algebra_simps)
qed

text \<open>The \<^verbatim>\<open>while\<close> loop makes \<open>n\<close> passes when the accumulator holds \<open>n\<close> steps, and
  at most five.\<close>

lemma stepLoop_stop:
  "maxSteps \<le> k \<or> accumulator w < FIXED_STEP \<Longrightarrow> stepLoop d k w = w"
  by (subst stepLoop.simps) auto

lemma stepLoop_passes:
  assumes "k + n \<le> maxSteps" "real n * FIXED_STEP \<le> accumulator w"
  shows "stepLoop d k w = stepLoop d (k + n) ((pass d ^^ n) w)"
  using assms
proof (induction n arbitrary: k w)
  case 0
  show ?case by simp
next
  case (Suc n)
  have pos: "0 \<le> real n * FIXED_STEP"
    by (simp add: FIXED_STEP_def)
  have "FIXED_STEP \<le> accumulator w" "k < maxSteps"
    using Suc.prems pos by (simp_all add: algebra_simps)
  then have "stepLoop d k w = stepLoop d (Suc k) (pass d w)"
    by (subst stepLoop.simps) simp
  also have "\<dots> = stepLoop d (Suc k + n) ((pass d ^^ n) (pass d w))"
    using Suc.prems by (intro Suc.IH) (simp_all add: algebra_simps)
  finally show ?case
    by (simp add: funpow_swap1)
qed

lemma stepLoop_exact:
  assumes "n \<le> maxSteps" "real n * FIXED_STEP \<le> accumulator w"
    and "n = maxSteps \<or> accumulator w < real (Suc n) * FIXED_STEP"
  shows "stepLoop d 0 w = (pass d ^^ n) w"
proof -
  have "stepLoop d 0 w = stepLoop d n ((pass d ^^ n) w)"
    using stepLoop_passes [of 0 n w d] assms(1,2) by simp
  also have "\<dots> = (pass d ^^ n) w"
    using assms(3) by (intro stepLoop_stop) (auto simp add: funpow_pass_accumulator algebra_simps)
  finally show ?thesis .
qed

lemma shake_keeps [simp]:
  "bodies (shake w) = bodies w"
  "accumulator (shake w) = accumulator w"
  "rocket (shake w) = rocket w"
  by (simp_all add: shake_def Let_def)

text \<open>A frame, when the clock has been read before: the elapsed time, at most a quarter
  of a second, is added to the accumulator, paused or not.\<close>

lemma loop_clock:
  assumes "lastTimestamp w \<noteq> 0"
    and "a = accumulator w + min (1 / 4) (now - lastTimestamp w)"
  shows "loop d now w
           = (if isPaused w then w\<lparr>lastTimestamp := now, accumulator := a\<rparr>
              else (let w4 = stepLoop d 0 (shake (w\<lparr>lastTimestamp := now, accumulator := a\<rparr>))
                    in w4\<lparr>frameCount := frameCount w4 + 1\<rparr>))"
proof (cases "now - lastTimestamp w > 1 / 4")
  case True
  then have "a = accumulator w + 1 / 4"
    using assms(2) by simp
  then show ?thesis
    using assms(1) True by (simp add: loop_def Let_def)
next
  case False
  then have "a = accumulator w + (now - lastTimestamp w)"
    using assms(2) by simp
  then show ?thesis
    using assms(1) False by (simp add: loop_def Let_def)
qed

lemma loop_running:
  assumes "\<not> isPaused w" "lastTimestamp w \<noteq> 0"
    and "a = accumulator w + min (1 / 4) (now - lastTimestamp w)"
    and "n \<le> maxSteps" "real n * FIXED_STEP \<le> a"
    and "n = maxSteps \<or> a < real (Suc n) * FIXED_STEP"
  shows "bodies (loop d now w)
           = bodies ((pass d ^^ n) (shake (w\<lparr>lastTimestamp := now, accumulator := a\<rparr>)))"
proof -
  let ?w3 = "shake (w\<lparr>lastTimestamp := now, accumulator := a\<rparr>)"
  have "stepLoop d 0 ?w3 = (pass d ^^ n) ?w3"
    using assms(4-6) by (intro stepLoop_exact) simp_all
  then show ?thesis
    unfolding loop_clock [OF assms(2,3)] using assms(1) by (simp add: Let_def)
qed

text \<open>What holds of C5: a frame during a pause moves no body, leaves the rocket (and so
  its fuel) and the closest approach as they are, and runs no tick.\<close>

lemma paused_frame_freezes:
  assumes "isPaused w"
  shows "bodies (loop d now w) = bodies w"
    and "rocket (loop d now w) = rocket w"
    and "closestDist (loop d now w) = closestDist w"
    and "frameCount (loop d now w) = frameCount w"
    and "mode (loop d now w) = mode w"
    and "isPaused (loop d now w)"
  using assms by (simp_all add: loop_def Let_def)

text \<open>What does not hold: the time of the pause goes into the accumulator, and the first
  frames after the pause work it off, five ticks at a time.\<close>

lemma paused_frame_accumulates:
  assumes "isPaused w" "lastTimestamp w \<noteq> 0"
  shows "accumulator (loop d now w) = accumulator w + min (1 / 4) (now - lastTimestamp w)"
  using assms by (simp add: loop_clock [OF assms(2) refl])

lemma sample_paused:
  "isPaused ((flying0 px py n)\<lparr>isPaused := True\<rparr>)"
  "lastTimestamp ((flying0 px py n)\<lparr>isPaused := True\<rparr>) = 1"
  "accumulator ((flying0 px py n)\<lparr>isPaused := True\<rparr>) = 0"
  "mode ((flying0 px py n)\<lparr>isPaused := True\<rparr>) = FLYING"
  "bodies ((flying0 px py n)\<lparr>isPaused := True\<rparr>) = [sun0, earth0, moon0, mars0]"
  "lastTimestamp (flying0 px py n) = 1"
  "accumulator (flying0 px py n) = 0"
  "\<not> isPaused (flying0 px py n)"
  by (simp_all add: flying0_def world0_def)

lemma resume_frame:
  "orbitAngle (bodies (loop d (5 / 4 + 1 / 60)
      (togglePause (loop d (5 / 4) ((flying0 700 400 5)\<lparr>isPaused := True\<rparr>)))) ! 1)
     = 5 * (5 / 1000)"
proof -
  let ?p = "(flying0 700 400 5)\<lparr>isPaused := True\<rparr>"
  let ?q = "?p\<lparr>lastTimestamp := 5 / 4, accumulator := 1 / 4\<rparr>"
  let ?u = "togglePause ?q"
  have q: "loop d (5 / 4) ?p = ?q"
    by (subst loop_clock [where a = "1 / 4"]) (simp_all add: sample_paused)
  have u: "\<not> isPaused ?u" "lastTimestamp ?u = 5 / 4" "accumulator ?u = 1 / 4"
    "bodies ?u = [sun0, earth0, moon0, mars0]"
    by (simp_all add: togglePause_def sample_paused sample_hit)
  let ?v = "shake (?u\<lparr>lastTimestamp := 5 / 4 + 1 / 60, accumulator := 4 / 15\<rparr>)"
  have "bodies (loop d (5 / 4 + 1 / 60) ?u) = bodies ((pass d ^^ 5) ?v)"
    by (rule loop_running [OF u(1)]) (simp_all add: u maxSteps_def FIXED_STEP_def)
  moreover have "orbitAngle (bodies ((pass d ^^ 5) ?v) ! 1)
                   = orbitAngle (bodies ?v ! 1) + real 5 * orbitSpeed (bodies ?v ! 1)"
    using funpow_pass_orbit [where i = 1 and w = ?v and c = "Vector 400 400" and d = d and n = 5]
    by (simp add: u earth0_def newBody_def)
  ultimately show ?thesis
    unfolding q by (simp add: u earth0_def newBody_def)
qed

lemma plain_frame:
  "orbitAngle (bodies (loop d (1 + 1 / 60) (flying0 700 400 5)) ! 1) = 5 / 1000"
proof -
  let ?u = "flying0 700 400 5"
  have u: "\<not> isPaused ?u" "lastTimestamp ?u = 1" "accumulator ?u = 0"
    "bodies ?u = [sun0, earth0, moon0, mars0]"
    by (simp_all add: sample_paused sample_hit)
  let ?v = "shake (?u\<lparr>lastTimestamp := 1 + 1 / 60, accumulator := 1 / 60\<rparr>)"
  have "bodies (loop d (1 + 1 / 60) ?u) = bodies ((pass d ^^ 1) ?v)"
    by (rule loop_running [OF u(1)]) (simp_all add: u maxSteps_def FIXED_STEP_def)
  moreover have "orbitAngle (bodies ((pass d ^^ 1) ?v) ! 1)
                   = orbitAngle (bodies ?v ! 1) + real 1 * orbitSpeed (bodies ?v ! 1)"
    using funpow_pass_orbit [where i = 1 and w = ?v and c = "Vector 400 400" and d = d and n = 1]
    by (simp add: u earth0_def newBody_def)
  ultimately show ?thesis
    by (simp add: u earth0_def newBody_def)
qed

text \<open>
  C5 at a failing input.  The sample flight is paused; a frame comes a quarter of a
  second later; the game is resumed; the next frame comes a sixtieth of a second after
  that.  The frame during the pause changes neither the bodies nor the rocket nor the
  closest approach, but it puts its quarter of a second into the accumulator, and the
  frame after the pause runs five ticks: the launch body moves on by five steps of its
  orbit, where a frame of the same length in an unpaused game moves it by one.
\<close>

theorem pause_backlog_applied:
  "bodies (loop GameJs (5 / 4) ((flying0 700 400 5)\<lparr>isPaused := True\<rparr>))
     = bodies (flying0 700 400 5)
   \<and> rocket (loop GameJs (5 / 4) ((flying0 700 400 5)\<lparr>isPaused := True\<rparr>))
     = rocket (flying0 700 400 5)
   \<and> closestDist (loop GameJs (5 / 4) ((flying0 700 400 5)\<lparr>isPaused := True\<rparr>))
     = closestDist (flying0 700 400 5)
   \<and> accumulator (loop GameJs (5 / 4) ((flying0 700 400 5)\<lparr>isPaused := True\<rparr>)) = 1 / 4
   \<and> orbitAngle (bodies (loop GameJs (5 / 4 + 1 / 60)
        (togglePause (loop GameJs (5 / 4) ((flying0 700 400 5)\<lparr>isPaused := True\<rparr>)))) ! 1)
     = 5 * (5 / 1000)
   \<and> orbitAngle (bodies (loop Part000 (5 / 4 + 1 / 60)
        (togglePause (loop Part000 (5 / 4) ((flying0 700 400 5)\<lparr>isPaused := True\<rparr>)))) ! 1)
     = 5 * (5 / 1000)
   \<and> orbitAngle (bodies (loop GameJs (1 + 1 / 60) (flying0 700 400 5)) ! 1) = 5 / 1000"
proof -
  let ?p = "(flying0 700 400 5)\<lparr>isPaused := True\<rparr>"
  have p: "isPaused ?p"
    by simp
  have a: "accumulator (loop GameJs (5 / 4) ?p) = 1 / 4"
    by (subst paused_frame_accumulates) (simp_all add: sample_paused)
  have b: "bodies (loop GameJs (5 / 4) ?p) = bodies (flying0 700 400 5)"
    unfolding paused_frame_freezes(1) [OF p] by simp
  have r: "rocket (loop GameJs (5 / 4) ?p) = rocket (flying0 700 400 5)"
    unfolding paused_frame_freezes(2) [OF p] by simp
  have c: "closestDist (loop GameJs (5 / 4) ?p) = closestDist (flying0 700 400 5)"
    unfolding paused_frame_freezes(3) [OF p] by simp
  show ?thesis
    by (intro conjI b r c a resume_frame plain_frame)
qed

section \<open>How a run ends\<close>

text \<open>A tick changes the mode only by ending the run, and the rocket is gone when it
  does: every end of a run goes through \<^verbatim>\<open>endGame\<close>.\<close>

lemma collide_ends:
  "collide d body r w = w \<or> (mode (collide d body r w) = ENDED \<and> rocket (collide d body r w) = None)"
  by (cases d) (simp_all add: Let_def)

lemma gravityLoop_ends:
  "mode (fst (gravityLoop d bs w)) = mode w
   \<or> (mode (fst (gravityLoop d bs w)) = ENDED \<and> rocket (fst (gravityLoop d bs w)) = None)"
proof (induction bs arbitrary: w)
  case Nil
  show ?case by simp
next
  case (Cons b bs)
  show ?case
  proof (cases "type b = Rocket \<or> rocket w = None")
    case True
    then show ?thesis
      using Cons [of w] by (auto split: draft.split)
  next
    case False
    then obtain r where r: "rocket w = Some r"
      by auto
    let ?w1 = "w\<lparr>rocket := Some (attract d w b r)\<rparr>"
    show ?thesis
    proof (cases "collides d w b r")
      case True
      then have "fst (gravityLoop d (b # bs) w) = collide d b (attract d w b r) ?w1"
        using False r by (simp add: Let_def)
      then show ?thesis
        using collide_ends [of d b "attract d w b r" ?w1] by auto
    next
      case miss: False
      then have "gravityLoop d (b # bs) w = gravityLoop d bs ?w1"
        using False r by (simp add: Let_def)
      then show ?thesis
        using Cons [of ?w1] by simp
    qed
  qed
qed

lemma physicsStep_ends:
  "mode (physicsStep d w) = mode w
   \<or> (mode (physicsStep d w) = ENDED \<and> rocket (physicsStep d w) = None)"
proof -
  let ?g = "calculateGravity d w"
  have g: "mode ?g = mode w \<or> (mode ?g = ENDED \<and> rocket ?g = None)"
    using gravityLoop_ends [of d "bodies (thrust w)" "thrust w"]
    by (auto simp add: calculateGravity_def Let_def split: option.split)
  have u: "mode (updateRocket v) = mode v
           \<or> (mode (updateRocket v) = ENDED \<and> rocket (updateRocket v) = None)" for v
    by (simp add: updateRocket_def Let_def split: option.split)
  have n: "rocket v = None \<Longrightarrow> updateRocket v = v" for v
    by (simp add: updateRocket_def)
  show ?thesis
  proof (cases "rocket ?g")
    case None
    then have "physicsStep d w = updateBodies ?g"
      unfolding physicsStep_def by (intro n) simp
    then show ?thesis
      using g None by auto
  next
    case (Some r)
    then have "mode ?g = mode w"
      using g by auto
    then show ?thesis
      using u [of "updateBodies ?g"] by (simp add: physicsStep_def)
  qed
qed

end
